theory Spec2Isabelle
  imports Complex_Main
begin

section \<open>Python values\<close>

text \<open>
  Exceptions of the Python source are values. \<open>ValueError\<close> carries the message and the
  numbers an f-string interpolates into it (each \<open>{}\<close> of the message, in order).
  \<open>LinAlgError\<close> stands for a failure inside a numeric kernel. \<open>Unmodelled\<close> marks array
  ranks outside the ones the source annotates (\<open>X\<close> two-dimensional, \<open>y\<close> and the blocked
  \<open>beta\<close> one-dimensional): the model says nothing about what numpy computes there.
\<close>

datatype exn =
    ValueError string "int list"
  | AttributeError string
  | IndexError
  | ZeroDivisionError
  | TypeError
  | NotImplementedError
  | LinAlgError
  | Unmodelled

text \<open>
  A numpy array: its shape and its elements in row-major order. Floating-point numbers
  are read as reals, so arithmetic is exact.
\<close>

datatype 'a ndarray = NDArray (shape: "nat list") (data: "'a list")

type_synonym array = "real ndarray"

text \<open>\<open>a.shape[0]\<close>: a tuple index, out of range for a 0-dimensional array.\<close>

definition shape_first :: "'a ndarray \<Rightarrow> exn + nat" where
  "shape_first a = (case shape a of [] \<Rightarrow> Inl IndexError | n # _ \<Rightarrow> Inr n)"

text \<open>\<open>a.shape[-1]\<close>.\<close>

definition shape_last :: "'a ndarray \<Rightarrow> exn + nat" where
  "shape_last a = (if shape a = [] then Inl IndexError else Inr (last (shape a)))"

text \<open>Python's \<open>a % b\<close> and \<open>a // b\<close> on ints: floor division, an exception at zero.\<close>

definition py_mod :: "int \<Rightarrow> int \<Rightarrow> exn + int" where
  "py_mod a b = (if b = 0 then Inl ZeroDivisionError else Inr (a mod b))"

definition py_floordiv :: "int \<Rightarrow> int \<Rightarrow> exn + int" where
  "py_floordiv a b = (if b = 0 then Inl ZeroDivisionError else Inr (a div b))"

text \<open>
  \<open>xs[a:b]\<close> on a sequence of length \<open>n\<close>: a negative bound counts from the end, and both
  bounds are clipped to \<open>0..n\<close>.
\<close>

definition slice_bound :: "nat \<Rightarrow> int \<Rightarrow> nat" where
  "slice_bound n a =
     (let b = (if a < 0 then a + int n else a)
      in if b < 0 then 0 else if int n < b then n else nat b)"

definition py_slice :: "'a list \<Rightarrow> int \<Rightarrow> int \<Rightarrow> 'a list" where
  "py_slice xs a b =
     (let lo = slice_bound (length xs) a; hi = slice_bound (length xs) b
      in take (hi - lo) (drop lo xs))"

section \<open>numpy operations\<close>

text \<open>The \<open>i\<close>-th block of \<open>k\<close> consecutive elements.\<close>

definition block :: "nat \<Rightarrow> nat \<Rightarrow> 'a list \<Rightarrow> 'a list" where
  "block k i xs = take k (drop (i * k) xs)"

text \<open>\<open>jnp.expand_dims(a, -1)\<close>: a trailing axis of length one.\<close>

definition expand_dims :: "'a ndarray \<Rightarrow> 'a ndarray" where
  "expand_dims a = NDArray (shape a @ [1]) (data a)"



text \<open>
  Element-wise binary operations with numpy's broadcasting: shapes are aligned at their
  last axes, and an axis of length one is repeated.
\<close>

definition pad_shape :: "nat \<Rightarrow> nat list \<Rightarrow> nat list" where
  "pad_shape n s = replicate (n - length s) 1 @ s"

definition broadcast_shapes :: "nat list \<Rightarrow> nat list \<Rightarrow> exn + nat list" where
  "broadcast_shapes s1 s2 =
     (let n = max (length s1) (length s2); p1 = pad_shape n s1; p2 = pad_shape n s2
      in if list_all (\<lambda>(d1, d2). d1 = d2 \<or> d1 = 1 \<or> d2 = 1) (zip p1 p2)
         then Inr (map (\<lambda>(d1, d2). if d1 = 1 then d2 else d1) (zip p1 p2))
         else Inl (ValueError ''operands could not be broadcast together'' []))"

fun broadcast_data ::
  "('a \<Rightarrow> 'a \<Rightarrow> 'a) \<Rightarrow> nat list \<Rightarrow> 'a list \<Rightarrow> nat list \<Rightarrow> 'a list \<Rightarrow> 'a list" where
  "broadcast_data f (d1 # r1) xs (d2 # r2) ys =
     concat (map (\<lambda>i. broadcast_data f
                    r1 (block (prod_list r1) (if d1 = 1 then 0 else i) xs)
                    r2 (block (prod_list r2) (if d2 = 1 then 0 else i) ys))
               [0..<(if d1 = 1 then d2 else d1)])"
| "broadcast_data f r1 xs r2 ys =
     (case (xs, ys) of (x # _, y # _) \<Rightarrow> [f x y] | _ \<Rightarrow> [])"

definition np_binop :: "('a \<Rightarrow> 'a \<Rightarrow> 'a) \<Rightarrow> 'a ndarray \<Rightarrow> 'a ndarray \<Rightarrow> exn + 'a ndarray" where
  "np_binop f a b =
     (case broadcast_shapes (shape a) (shape b) of
        Inl e \<Rightarrow> Inl e
      | Inr s \<Rightarrow>
          Inr (NDArray s (broadcast_data f
                 (pad_shape (length s) (shape a)) (data a)
                 (pad_shape (length s) (shape b)) (data b))))"

definition np_add :: "array \<Rightarrow> array \<Rightarrow> exn + array" where
  "np_add a b = np_binop (+) a b"

definition np_subtract :: "array \<Rightarrow> array \<Rightarrow> exn + array" where
  "np_subtract a b = np_binop (-) a b"

text \<open>
  The same operations on jax arrays: jax broadcasts as numpy does, and raises \<open>TypeError\<close>
  where numpy raises \<open>ValueError\<close>. A result of \<open>jnp.expand_dims\<close> is a jax array.
\<close>

definition jnp_binop :: "('a \<Rightarrow> 'a \<Rightarrow> 'a) \<Rightarrow> 'a ndarray \<Rightarrow> 'a ndarray \<Rightarrow> exn + 'a ndarray" where
  "jnp_binop f a b = (case np_binop f a b of Inl e \<Rightarrow> Inl TypeError | Inr r \<Rightarrow> Inr r)"

definition jnp_add :: "array \<Rightarrow> array \<Rightarrow> exn + array" where
  "jnp_add a b = jnp_binop (+) a b"


text \<open>\<open>beta + s\<close> where the attribute \<open>beta\<close> may hold \<open>None\<close>.\<close>

definition add_to_beta :: "array option \<Rightarrow> array \<Rightarrow> exn + array" where
  "add_to_beta beta s = (case beta of None \<Rightarrow> Inl TypeError | Some b \<Rightarrow> np_add b s)"

text \<open>The inner product of two one-dimensional arrays.\<close>

definition vdot :: "real list \<Rightarrow> real list \<Rightarrow> real" where
  "vdot xs ys = sum_list (map (\<lambda>(x, y). x * y) (zip xs ys))"

text \<open>\<open>X @ b\<close> for a two-dimensional \<open>X\<close> and a one-dimensional \<open>b\<close>.\<close>

definition matmul :: "array \<Rightarrow> array \<Rightarrow> exn + array" where
  "matmul X b =
     (if length (shape X) = 2 \<and> length (shape b) = 1 then
        let n = shape X ! 0; p = shape X ! 1 in
        if p = shape b ! 0 then
          Inr (NDArray [n] (map (\<lambda>i. vdot (block p i (data X)) (data b)) [0..<n]))
        else Inl (ValueError ''dimension mismatch'' [])
      else Inl Unmodelled)"

text \<open>\<open>np.cumsum\<close>, and \<open>np.insert(nobss, 0, [0.])\<close>, which puts a zero in front.\<close>

primrec cumsum_from :: "int \<Rightarrow> int list \<Rightarrow> int list" where
  "cumsum_from acc [] = []"
| "cumsum_from acc (x # xs) = (acc + x) # cumsum_from (acc + x) xs"

definition np_cumsum :: "int list \<Rightarrow> int list" where
  "np_cumsum xs = cumsum_from 0 xs"

definition np_insert_front :: "int list \<Rightarrow> int \<Rightarrow> int list" where
  "np_insert_front xs v = v # xs"

text \<open>\<open>a[:k]\<close> and \<open>a[k:]\<close> along the leading axis, for \<open>k \<ge> 0\<close>.\<close>

definition take_leading :: "nat \<Rightarrow> 'a ndarray \<Rightarrow> 'a ndarray" where
  "take_leading k a =
     (case shape a of
        [] \<Rightarrow> a
      | d # rest \<Rightarrow> NDArray (min k d # rest) (take (min k d * prod_list rest) (data a)))"

definition drop_leading :: "nat \<Rightarrow> 'a ndarray \<Rightarrow> 'a ndarray" where
  "drop_leading k a =
     (case shape a of
        [] \<Rightarrow> a
      | d # rest \<Rightarrow> NDArray ((d - k) # rest) (drop (min k d * prod_list rest) (data a)))"

text \<open>\<open>np.reshape(a, s)\<close>, and \<open>np.reshape(a, (-1, n))\<close> where the first axis is inferred.\<close>

definition np_reshape :: "'a ndarray \<Rightarrow> nat list \<Rightarrow> exn + 'a ndarray" where
  "np_reshape a s =
     (if prod_list s = prod_list (shape a) then Inr (NDArray s (data a))
      else Inl (ValueError ''cannot reshape array'' []))"

definition np_reshape_infer :: "'a ndarray \<Rightarrow> nat \<Rightarrow> exn + 'a ndarray" where
  "np_reshape_infer a n =
     (if n = 0 \<or> prod_list (shape a) mod n \<noteq> 0 then Inl (ValueError ''cannot reshape array'' [])
      else Inr (NDArray [prod_list (shape a) div n, n] (data a)))"

text \<open>\<open>np.concatenate((a, b), axis=0)\<close>.\<close>

definition np_concatenate :: "'a ndarray \<Rightarrow> 'a ndarray \<Rightarrow> exn + 'a ndarray" where
  "np_concatenate a b =
     (case (shape a, shape b) of
        (d1 # r1, d2 # r2) \<Rightarrow>
          if r1 = r2 then Inr (NDArray ((d1 + d2) # r1) (data a @ data b))
          else Inl (ValueError ''all the input array dimensions must match'' [])
      | _ \<Rightarrow> Inl (ValueError ''zero-dimensional arrays cannot be concatenated'' []))"

text \<open>The slices of an array along its leading axis.\<close>

definition leading_slices :: "'a ndarray \<Rightarrow> 'a ndarray list" where
  "leading_slices a =
     (case shape a of
        [] \<Rightarrow> []
      | d # rest \<Rightarrow> map (\<lambda>i. NDArray rest (block (prod_list rest) i (data a))) [0..<d])"

section \<open>The modules \<open>linalg\<close>, \<open>utils\<close> and \<open>jax\<close>\<close>

text \<open>
  The solver classes live in \<open>linalg\<close>, which is not among the sources: a solver object is
  what the regression code uses of it, the answer of \<open>isinstance(algo, linalg.QRSolver)\<close>
  and the call \<open>algo(A, b)\<close>, which returns an array or raises.
\<close>

record solver =
  is_QRSolver :: bool
  run :: "array \<Rightarrow> array \<Rightarrow> exn + array"

text \<open>
  The names of \<open>linalg\<close> that the regression code uses: the default solver objects and the
  numeric kernels. Each is a parameter. A kernel that is handed the coefficient attribute
  takes it as it is stored, \<open>None\<close> included.
\<close>

record linalg =
  CholeskySolver :: solver
  BatchedCholeskySolver :: solver
  BatchedInverseSolver :: solver
  mvmul :: "array \<Rightarrow> array \<Rightarrow> exn + array"
  batched_mvmul :: "array \<Rightarrow> array option \<Rightarrow> exn + array"
  logistic_predict :: "array \<Rightarrow> array option \<Rightarrow> exn + array"
  logistic_hessian :: "array \<Rightarrow> array \<Rightarrow> exn + array"
  batched_logistic_predict :: "array \<Rightarrow> array option \<Rightarrow> exn + array"
  batched_logistic_residual :: "array \<Rightarrow> array \<Rightarrow> exn + array"
  batched_logistic_gradient :: "array \<Rightarrow> array \<Rightarrow> exn + array"
  batched_logistic_hessian :: "array \<Rightarrow> array \<Rightarrow> exn + array"

text \<open>
  A module as the lookup of its functions that take no argument and return a count:
  \<open>m name\<close> is what \<open>m.name()\<close> returns, and \<open>None\<close> when the module has no attribute of
  that name. \<open>utils.py\<close> defines \<open>jax_dev_count\<close>, which returns \<open>jax.device_count()\<close>, and
  \<open>bash\<close>, which needs a command; it defines nothing else.
\<close>

type_synonym pymodule = "string \<Rightarrow> nat option"

definition call_attr :: "pymodule \<Rightarrow> string \<Rightarrow> exn + nat" where
  "call_attr m name = (case m name of None \<Rightarrow> Inl (AttributeError name) | Some v \<Rightarrow> Inr v)"

definition utils :: "nat \<Rightarrow> pymodule" where
  "utils device_count name = (if name = ''jax_dev_count'' then Some device_count else None)"

text \<open>
  \<open>pmap(f, in_axes=(0, 0), out_axes=0)(A, a)\<close>: \<open>f\<close> on each pair of leading-axis slices,
  one per device, the results stacked along a new leading axis. jax refuses more slices
  than it has devices.
\<close>

fun collect :: "(exn + 'a) list \<Rightarrow> exn + 'a list" where
  "collect [] = Inr []"
| "collect (r # rs) =
     (case r of
        Inl e \<Rightarrow> Inl e
      | Inr v \<Rightarrow> (case collect rs of Inl e \<Rightarrow> Inl e | Inr vs \<Rightarrow> Inr (v # vs)))"

definition stack :: "'a ndarray list \<Rightarrow> exn + 'a ndarray" where
  "stack rs =
     (case rs of
        [] \<Rightarrow> Inl (ValueError ''need at least one array to stack'' [])
      | r # _ \<Rightarrow>
          if list_all (\<lambda>q. shape q = shape r) rs
          then Inr (NDArray (length rs # shape r) (concat (map data rs)))
          else Inl (ValueError ''all input arrays must have the same shape'' []))"

definition pmap ::
  "nat \<Rightarrow> (array \<Rightarrow> array option \<Rightarrow> exn + array) \<Rightarrow> array \<Rightarrow> array \<Rightarrow> exn + array" where
  "pmap device_count f A a =
     (if length (leading_slices A) \<noteq> length (leading_slices a)
         \<or> device_count < length (leading_slices A)
      then Inl (ValueError ''pmap: mapped axis sizes'' [])
      else
        (case collect (map (\<lambda>(S, s). f S (Some s)) (zip (leading_slices A) (leading_slices a))) of
           Inl e \<Rightarrow> Inl e
         | Inr rs \<Rightarrow> stack rs))"

section \<open>The regression models and their constructors\<close>

text \<open>
  The private attributes \<open>__beta\<close>, \<open>__include_bias\<close> and \<open>__nmodels\<close> of each class. An
  attribute can hold \<open>None\<close>, so the coefficient state is an option.
\<close>

record LinearRegression =
  LinearRegression__beta :: "array option"
  LinearRegression__include_bias :: bool

record BatchedLinearRegression =
  BatchedLinearRegression__beta :: "array option"
  BatchedLinearRegression__include_bias :: bool

record BlockedLinearRegression =
  BlockedLinearRegression__beta :: "array option"
  BlockedLinearRegression__nmodels :: int

record LogisticRegression =
  LogisticRegression__beta :: "array option"

record BatchedLogisticRegression =
  BatchedLogisticRegression__beta :: "array option"
  acceleration :: string

definition LinearRegression_init ::
  "array option \<Rightarrow> array option \<Rightarrow> array option \<Rightarrow> solver \<Rightarrow> bool \<Rightarrow> exn + LinearRegression" where
  "LinearRegression_init beta XtX Xty algo include_bias =
     (if beta = None then
        if XtX = None \<or> Xty = None then
          Inl (ValueError ''Must provide XtX and Xty, since beta is not provided.'' [])
        else if is_QRSolver algo then
          Inl (ValueError ''QRSolver is not supported in constructor.'' [])
        else
          (case run algo (the XtX) (the Xty) of
             Inl e \<Rightarrow> Inl e
           | Inr b \<Rightarrow>
               Inr \<lparr>LinearRegression__beta = Some b,
                    LinearRegression__include_bias = include_bias\<rparr>)
      else
        Inr \<lparr>LinearRegression__beta = beta, LinearRegression__include_bias = include_bias\<rparr>)"

definition LinearRegression_coef :: "LinearRegression \<Rightarrow> array option" where
  "LinearRegression_coef self = LinearRegression__beta self"

definition BatchedLinearRegression_init ::
  "array option \<Rightarrow> array option \<Rightarrow> array option \<Rightarrow> solver \<Rightarrow> bool
    \<Rightarrow> exn + BatchedLinearRegression" where
  "BatchedLinearRegression_init beta XtX Xty algo include_bias =
     (if beta = None then
        if XtX = None \<or> Xty = None then
          Inl (ValueError ''Must provide XtX and Xty, since beta is not provided.'' [])
        else if is_QRSolver algo then
          Inl (ValueError ''QRSolver is not supported in constructor.'' [])
        else
          (case run algo (the XtX) (the Xty) of
             Inl e \<Rightarrow> Inl e
           | Inr b \<Rightarrow>
               Inr \<lparr>BatchedLinearRegression__beta = Some b,
                    BatchedLinearRegression__include_bias = include_bias\<rparr>)
      else
        Inr \<lparr>BatchedLinearRegression__beta = beta,
             BatchedLinearRegression__include_bias = include_bias\<rparr>)"

definition BatchedLinearRegression_coef :: "BatchedLinearRegression \<Rightarrow> array option" where
  "BatchedLinearRegression_coef self = BatchedLinearRegression__beta self"

text \<open>
  The blocked constructor checks divisibility by \<open>nmodels\<close> on both branches:
  \<open>XtX.shape[0] % nmodels\<close> before the solver runs, \<open>beta.shape[0] % nmodels\<close> when the
  coefficients are given.
\<close>

definition BlockedLinearRegression_init ::
  "array option \<Rightarrow> array option \<Rightarrow> array option \<Rightarrow> int \<Rightarrow> solver
    \<Rightarrow> exn + BlockedLinearRegression" where
  "BlockedLinearRegression_init beta XtX Xty nmodels algo =
     (if beta = None then
        if XtX = None \<or> Xty = None then
          Inl (ValueError ''Must provide XtX and Xty, since beta is not provided.'' [])
        else if is_QRSolver algo then
          Inl (ValueError ''QRSolver is not supported in constructor.'' [])
        else
          (case shape_first (the XtX) of
             Inl e \<Rightarrow> Inl e
           | Inr n \<Rightarrow>
               (case py_mod (int n) nmodels of
                  Inl e \<Rightarrow> Inl e
                | Inr r \<Rightarrow>
                    if r \<noteq> 0 then
                      Inl (ValueError
                        ''Dimension of XtX ({}) is not divisible by number of models ({}).''
                        [int n, nmodels])
                    else
                      (case run algo (the XtX) (the Xty) of
                         Inl e \<Rightarrow> Inl e
                       | Inr b \<Rightarrow>
                           Inr \<lparr>BlockedLinearRegression__beta = Some b,
                                BlockedLinearRegression__nmodels = nmodels\<rparr>)))
      else
        (case shape_first (the beta) of
           Inl e \<Rightarrow> Inl e
         | Inr n \<Rightarrow>
             (case py_mod (int n) nmodels of
                Inl e \<Rightarrow> Inl e
              | Inr r \<Rightarrow>
                  if r \<noteq> 0 then
                    Inl (ValueError
                      ''Dimension of beta ({}) is not divisible by number of models ({}).''
                      [int n, nmodels])
                  else
                    Inr \<lparr>BlockedLinearRegression__beta = beta,
                         BlockedLinearRegression__nmodels = nmodels\<rparr>)))"

definition BlockedLinearRegression_coef :: "BlockedLinearRegression \<Rightarrow> array option" where
  "BlockedLinearRegression_coef self = BlockedLinearRegression__beta self"

text \<open>The logistic constructors store what they are given; they take no statistics.\<close>

definition LogisticRegression_init :: "array option \<Rightarrow> exn + LogisticRegression" where
  "LogisticRegression_init beta = Inr \<lparr>LogisticRegression__beta = beta\<rparr>"

definition BatchedLogisticRegression_init ::
  "array option \<Rightarrow> string \<Rightarrow> exn + BatchedLogisticRegression" where
  "BatchedLogisticRegression_init beta acc =
     Inr \<lparr>BatchedLogisticRegression__beta = beta, acceleration = acc\<rparr>"

section \<open>Degrees of freedom\<close>

text \<open>
  \<open>k = self.__beta.shape[0] + self.__include_bias\<close>, a bool counting as 0 or 1; reading
  \<open>shape\<close> of \<open>None\<close> is an \<open>AttributeError\<close>.
\<close>

definition LinearRegression_dof :: "LinearRegression \<Rightarrow> int \<Rightarrow> exn + int" where
  "LinearRegression_dof self nobs =
     (case LinearRegression__beta self of
        None \<Rightarrow> Inl (AttributeError ''shape'')
      | Some b \<Rightarrow>
          (case shape_first b of
             Inl e \<Rightarrow> Inl e
           | Inr n \<Rightarrow>
               Inr (nobs - (int n + (if LinearRegression__include_bias self then 1 else 0)))))"

definition BatchedLinearRegression_dof :: "BatchedLinearRegression \<Rightarrow> int \<Rightarrow> exn + int" where
  "BatchedLinearRegression_dof self nobs =
     (case BatchedLinearRegression_coef self of
        None \<Rightarrow> Inl (AttributeError ''shape'')
      | Some b \<Rightarrow>
          (case shape_last b of
             Inl e \<Rightarrow> Inl e
           | Inr n \<Rightarrow>
               Inr (nobs - (int n + (if BatchedLinearRegression__include_bias self then 1 else 0)))))"

definition coef_dim :: "BlockedLinearRegression \<Rightarrow> exn + int" where
  "coef_dim self =
     (case BlockedLinearRegression__beta self of
        None \<Rightarrow> Inl (AttributeError ''shape'')
      | Some b \<Rightarrow>
          (case shape_first b of
             Inl e \<Rightarrow> Inl e
           | Inr n \<Rightarrow> py_floordiv (int n) (BlockedLinearRegression__nmodels self)))"

definition BlockedLinearRegression_dof :: "BlockedLinearRegression \<Rightarrow> int \<Rightarrow> exn + int" where
  "BlockedLinearRegression_dof self nobs =
     (case coef_dim self of Inl e \<Rightarrow> Inl e | Inr k \<Rightarrow> Inr (nobs - k))"

text \<open>
  An instance of any of the five classes, and the call \<open>model.dof(nobs)\<close> on it. The two
  logistic classes define no \<open>dof\<close>, and neither does their base class \<open>LinearModel\<close>, so
  the attribute lookup fails there.
\<close>

datatype model =
    Linear LinearRegression
  | Batched BatchedLinearRegression
  | Blocked BlockedLinearRegression
  | Logistic LogisticRegression
  | BatchedLogistic BatchedLogisticRegression

fun dof :: "model \<Rightarrow> int \<Rightarrow> exn + int" where
  "dof (Linear m) nobs = LinearRegression_dof m nobs"
| "dof (Batched m) nobs = BatchedLinearRegression_dof m nobs"
| "dof (Blocked m) nobs = BlockedLinearRegression_dof m nobs"
| "dof (Logistic m) nobs = Inl (AttributeError ''dof'')"
| "dof (BatchedLogistic m) nobs = Inl (AttributeError ''dof'')"

section \<open>Blocked linear regression: residuals and the per-block sum of squares\<close>

definition BlockedLinearRegression_predict :: "BlockedLinearRegression \<Rightarrow> array \<Rightarrow> exn + array" where
  "BlockedLinearRegression_predict self X =
     (case BlockedLinearRegression__beta self of
        None \<Rightarrow> Inl TypeError
      | Some b \<Rightarrow> matmul X b)"

definition BlockedLinearRegression_residual ::
  "BlockedLinearRegression \<Rightarrow> array \<Rightarrow> array \<Rightarrow> exn + array" where
  "BlockedLinearRegression_residual self X y =
     (case BlockedLinearRegression_predict self X of
        Inl e \<Rightarrow> Inl e
      | Inr p \<Rightarrow> np_subtract y p)"

text \<open>
  \<open>res[a:b].T @ res[a:b]\<close> on a one-dimensional residual is the inner product of the
  slice with itself; the list comprehension runs over \<open>range(len(block_starts) - 1)\<close>.
\<close>

definition BlockedLinearRegression_sse ::
  "BlockedLinearRegression \<Rightarrow> array \<Rightarrow> array \<Rightarrow> int list \<Rightarrow> exn + array" where
  "BlockedLinearRegression_sse self X y nobss =
     (case BlockedLinearRegression_residual self X y of
        Inl e \<Rightarrow> Inl e
      | Inr res \<Rightarrow>
          let block_starts = np_cumsum (np_insert_front nobss 0) in
          if length (shape res) = 1 then
            Inr (NDArray [length block_starts - 1]
                  (map (\<lambda>i. vdot (py_slice (data res) (block_starts ! i) (block_starts ! (i + 1)))
                                 (py_slice (data res) (block_starts ! i) (block_starts ! (i + 1))))
                     [0..<length block_starts - 1]))
          else Inl Unmodelled)"

section \<open>Batched linear regression: prediction\<close>

text \<open>
  The \<open>pmap\<close> branch, which \<open>BatchedLinearRegression.predict\<close> and
  \<open>BatchedLogisticRegression.predict\<close> share line by line up to the kernel: the worker
  count is looked up as \<open>utils.jax_cpu_cores()\<close>, the first \<open>minibatch * ncores\<close> slices go
  through \<open>pmap\<close> in \<open>ncores\<close> groups, and the remaining slices through the kernel itself.
\<close>

definition pmap_branch ::
  "(array \<Rightarrow> array option \<Rightarrow> exn + array) \<Rightarrow> pymodule \<Rightarrow> nat \<Rightarrow> array option \<Rightarrow> array
    \<Rightarrow> exn + array" where
  "pmap_branch batched_kernel utils_mod device_count coef X =
     (case call_attr utils_mod ''jax_cpu_cores'' of
        Inl e \<Rightarrow> Inl e
      | Inr ncores \<Rightarrow>
          if length (shape X) \<noteq> 3 then Inl (ValueError ''values to unpack'' [])
          else
            let batch = shape X ! 0; nsample = shape X ! 1; ndims = shape X ! 2 in
            if ncores = 0 then Inl ZeroDivisionError
            else
              let minibatch = batch div ncores; remainder = batch mod ncores in
              (case np_reshape (take_leading (minibatch * ncores) X)
                      [ncores, minibatch, nsample, ndims] of
                 Inl e \<Rightarrow> Inl e
               | Inr A \<Rightarrow>
                   (case coef of
                      None \<Rightarrow> Inl TypeError
                    | Some c \<Rightarrow>
                        if length (shape c) < 2 then Inl IndexError
                        else
                          (case np_reshape (take_leading (minibatch * ncores) c)
                                  [ncores, minibatch, ndims] of
                             Inl e \<Rightarrow> Inl e
                           | Inr a \<Rightarrow>
                               (case pmap device_count batched_kernel A a of
                                  Inl e \<Rightarrow> Inl e
                                | Inr P \<Rightarrow>
                                    (case np_reshape_infer P nsample of
                                       Inl e \<Rightarrow> Inl e
                                     | Inr Y \<Rightarrow>
                                         if remainder \<noteq> 0 then
                                           (case batched_kernel (drop_leading (minibatch * ncores) X)
                                                   (Some (drop_leading (minibatch * ncores) c)) of
                                              Inl e \<Rightarrow> Inl e
                                            | Inr Z \<Rightarrow> np_concatenate Y Z)
                                         else Inr Y))))))"

definition BatchedLinearRegression_predict ::
  "linalg \<Rightarrow> pymodule \<Rightarrow> nat \<Rightarrow> BatchedLinearRegression \<Rightarrow> array \<Rightarrow> string \<Rightarrow> exn + array" where
  "BatchedLinearRegression_predict L utils_mod device_count self X acc =
     (if acc = ''single'' then batched_mvmul L X (BatchedLinearRegression_coef self)
      else if acc = ''pmap'' then
        pmap_branch (batched_mvmul L) utils_mod device_count (BatchedLinearRegression_coef self) X
      else Inl (ValueError (acc @ '' acceleration is not supported.'') []))"

text \<open>
  A batched kernel that works slice by slice: on \<open>X\<close> of shape \<open>(batch, nsample, ndims)\<close>
  and \<open>c\<close> of shape \<open>(batch, ndims)\<close> it applies \<open>f\<close> to each pair of leading-axis slices
  and lists the results, one row of \<open>nsample\<close> values per slice.
\<close>

definition slicewise :: "(real list \<Rightarrow> real list \<Rightarrow> real list) \<Rightarrow> array \<Rightarrow> array \<Rightarrow> array" where
  "slicewise f X c =
     NDArray [shape X ! 0, shape X ! 1]
       (concat (map (\<lambda>i. f (block (shape X ! 1 * shape X ! 2) i (data X))
                            (block (shape X ! 2) i (data c)))
                  [0..<shape X ! 0]))"

section \<open>Logistic regression: one Newton step\<close>





text \<open>\<open>jnp.expand_dims(self.__beta, -1) + solver(hessian, gradient)\<close>.\<close>

definition LogisticRegression_beta ::
  "LogisticRegression \<Rightarrow> array \<Rightarrow> array \<Rightarrow> solver \<Rightarrow> exn + array" where
  "LogisticRegression_beta self gradient hessian slv =
     (case LogisticRegression__beta self of
        None \<Rightarrow> Inl TypeError
      | Some b \<Rightarrow>
          (case run slv hessian gradient of
             Inl e \<Rightarrow> Inl e
           | Inr s \<Rightarrow> jnp_add (expand_dims b) s))"


text \<open>\<open>1 / (1 + jnp.exp(-z))\<close>, element by element.\<close>

definition sigmoid :: "array \<Rightarrow> array" where
  "sigmoid z = NDArray (shape z) (map (\<lambda>v. 1 / (1 + exp (- v))) (data z))"

definition BatchedLogisticRegression_predict ::
  "linalg \<Rightarrow> pymodule \<Rightarrow> nat \<Rightarrow> BatchedLogisticRegression \<Rightarrow> array \<Rightarrow> exn + array" where
  "BatchedLogisticRegression_predict L utils_mod device_count self X =
     (if acceleration self = ''single'' then
        (case batched_mvmul L X (BatchedLogisticRegression__beta self) of
           Inl e \<Rightarrow> Inl e
         | Inr z \<Rightarrow> Inr (expand_dims (sigmoid z)))
      else if acceleration self = ''pmap'' then
        (case pmap_branch (batched_logistic_predict L) utils_mod device_count
                (BatchedLogisticRegression__beta self) X of
           Inl e \<Rightarrow> Inl e
         | Inr Y \<Rightarrow> Inr (expand_dims Y))
      else Inl (ValueError (acceleration self @ '' acceleration is not supported.'') []))"

definition BatchedLogisticRegression_residual ::
  "linalg \<Rightarrow> pymodule \<Rightarrow> nat \<Rightarrow> BatchedLogisticRegression \<Rightarrow> array \<Rightarrow> array \<Rightarrow> exn + array" where
  "BatchedLogisticRegression_residual L utils_mod device_count self X y =
     (case BatchedLogisticRegression_predict L utils_mod device_count self X of
        Inl e \<Rightarrow> Inl e
      | Inr p \<Rightarrow> batched_logistic_residual L y p)"

definition BatchedLogisticRegression_gradient ::
  "linalg \<Rightarrow> pymodule \<Rightarrow> nat \<Rightarrow> BatchedLogisticRegression \<Rightarrow> array \<Rightarrow> array \<Rightarrow> exn + array" where
  "BatchedLogisticRegression_gradient L utils_mod device_count self X y =
     (case BatchedLogisticRegression_residual L utils_mod device_count self X y of
        Inl e \<Rightarrow> Inl e
      | Inr r \<Rightarrow> batched_logistic_gradient L X r)"

definition BatchedLogisticRegression_hessian ::
  "linalg \<Rightarrow> pymodule \<Rightarrow> nat \<Rightarrow> BatchedLogisticRegression \<Rightarrow> array \<Rightarrow> exn + array" where
  "BatchedLogisticRegression_hessian L utils_mod device_count self X =
     (case BatchedLogisticRegression_predict L utils_mod device_count self X of
        Inl e \<Rightarrow> Inl e
      | Inr p \<Rightarrow> batched_logistic_hessian L X p)"

text \<open>
  The \<open>try\<close> block holds the whole expression \<open>self.__beta + solver(hessian, gradient)\<close>,
  and the bare \<open>except\<close> catches every exception of it; the handler evaluates the same
  expression with \<open>linalg.BatchedInverseSolver()\<close>, outside any \<open>try\<close>.
\<close>

definition BatchedLogisticRegression_beta ::
  "linalg \<Rightarrow> BatchedLogisticRegression \<Rightarrow> array \<Rightarrow> array \<Rightarrow> solver \<Rightarrow> exn + array" where
  "BatchedLogisticRegression_beta L self gradient hessian slv =
     (case (case run slv hessian gradient of
              Inl e \<Rightarrow> Inl e
            | Inr s \<Rightarrow> add_to_beta (BatchedLogisticRegression__beta self) s) of
        Inr b \<Rightarrow> Inr b
      | Inl e \<Rightarrow>
          (case run (BatchedInverseSolver L) hessian gradient of
             Inl e' \<Rightarrow> Inl e'
           | Inr s \<Rightarrow> add_to_beta (BatchedLogisticRegression__beta self) s))"

definition BatchedLogisticRegression_fit ::
  "linalg \<Rightarrow> pymodule \<Rightarrow> nat \<Rightarrow> BatchedLogisticRegression \<Rightarrow> array \<Rightarrow> array
    \<Rightarrow> exn + BatchedLogisticRegression" where
  "BatchedLogisticRegression_fit L utils_mod device_count self X y =
     (case BatchedLogisticRegression_gradient L utils_mod device_count self X y of
        Inl e \<Rightarrow> Inl e
      | Inr grad \<Rightarrow>
          (case BatchedLogisticRegression_hessian L utils_mod device_count self X of
             Inl e \<Rightarrow> Inl e
           | Inr H \<Rightarrow>
               (case BatchedLogisticRegression_beta L self grad H (BatchedCholeskySolver L) of
                  Inl e \<Rightarrow> Inl e
                | Inr b \<Rightarrow> Inr (self\<lparr>BatchedLogisticRegression__beta := Some b\<rparr>))))"

section \<open>Federated aggregation\<close>

text \<open>
  Modelled from the spec: the module \<open>aggregations\<close> with the classes \<open>SumUp\<close> and
  \<open>Intersect\<close> is not among the sources (only its tests are). A contribution is a plain
  number, a numeric array, or an ordered sequence of contributions.
\<close>

datatype 'a contribution =
    Number 'a
  | Array "'a ndarray"
  | Sequence "'a contribution list"

text \<open>
  Modelled from the spec: "duplicates reduced to first occurrence". \<open>seen\<close> holds the
  values already listed.
\<close>

primrec first_occurrences :: "'a list \<Rightarrow> 'a list \<Rightarrow> 'a list" where
  "first_occurrences seen [] = []"
| "first_occurrences seen (x # xs) =
     (if x \<in> set seen then first_occurrences seen xs
      else x # first_occurrences (x # seen) xs)"

text \<open>Modelled from the spec: "also occur in every other argument".\<close>

definition occurs_in_all :: "'a \<Rightarrow> 'a ndarray list \<Rightarrow> bool" where
  "occurs_in_all x others = list_all (\<lambda>B. x \<in> set (data B)) others"

text \<open>
  Modelled from the spec: \<open>Intersect\<close> is "defined only for arrays; invoking it on plain
  numbers or on sequences-of-arrays fails with a not-implemented error".
\<close>

fun as_arrays :: "'a contribution list \<Rightarrow> exn + 'a ndarray list" where
  "as_arrays [] = Inr []"
| "as_arrays (Array a # cs) =
     (case as_arrays cs of Inl e \<Rightarrow> Inl e | Inr as \<Rightarrow> Inr (a # as))"
| "as_arrays (c # cs) = Inl NotImplementedError"

text \<open>
  Modelled from the spec: \<open>Intersect\<close> "accepts 2+ numeric-array contributions and returns
  the subset of elements of the first argument that also occur in every other argument,
  in the order they occur in the first argument, with duplicates reduced to first
  occurrence". The call \<open>Intersect()(a, b, *rest)\<close>; the result is a one-dimensional
  array.
\<close>

definition Intersect ::
  "'a contribution \<Rightarrow> 'a contribution \<Rightarrow> 'a contribution list \<Rightarrow> exn + 'a ndarray" where
  "Intersect a b rest =
     (case as_arrays (a # b # rest) of
        Inl e \<Rightarrow> Inl e
      | Inr arrays \<Rightarrow>
          (case arrays of
             [] \<Rightarrow> Inl NotImplementedError
           | A # others \<Rightarrow>
               let r = filter (\<lambda>x. occurs_in_all x others) (first_occurrences [] (data A))
               in Inr (NDArray [length r] r)))"

text \<open>
  Modelled from the spec: the element-wise sum of two contributions of the same shape.
  Numbers add, arrays of one shape add element by element, and sequences add position by
  position ("sequences must be equal length"). The spec names no result for arrays of
  different shapes or sequences of different lengths; the model raises \<open>ValueError\<close>
  there, and \<open>NotImplementedError\<close> for contributions of different kinds.
\<close>

fun add_contribution :: "real contribution \<Rightarrow> real contribution \<Rightarrow> exn + real contribution"
  and add_sequences ::
    "real contribution list \<Rightarrow> real contribution list \<Rightarrow> exn + real contribution list" where
  "add_contribution (Number a) (Number b) = Inr (Number (a + b))"
| "add_contribution (Array a) (Array b) =
     (if shape a = shape b
      then Inr (Array (NDArray (shape a) (map (\<lambda>(x, y). x + y) (zip (data a) (data b)))))
      else Inl (ValueError ''arrays of different shapes'' []))"
| "add_contribution (Sequence xs) (Sequence ys) =
     (case add_sequences xs ys of Inl e \<Rightarrow> Inl e | Inr zs \<Rightarrow> Inr (Sequence zs))"
| "add_contribution a b = Inl NotImplementedError"
| "add_sequences [] [] = Inr []"
| "add_sequences (x # xs) (y # ys) =
     (case add_contribution x y of
        Inl e \<Rightarrow> Inl e
      | Inr z \<Rightarrow> (case add_sequences xs ys of Inl e \<Rightarrow> Inl e | Inr zs \<Rightarrow> Inr (z # zs)))"
| "add_sequences xs ys = Inl (ValueError ''sequences of different lengths'' [])"

text \<open>
  Modelled from the spec: \<open>SumUp\<close> "accepts 2+ same-shaped contributions ... and returns
  their element-wise sum, preserving container shape". The call \<open>SumUp()(a, b, *rest)\<close>
  adds the contributions from left to right.
\<close>

fun sum_from :: "real contribution \<Rightarrow> real contribution list \<Rightarrow> exn + real contribution" where
  "sum_from acc [] = Inr acc"
| "sum_from acc (c # cs) =
     (case add_contribution acc c of Inl e \<Rightarrow> Inl e | Inr s \<Rightarrow> sum_from s cs)"

definition SumUp ::
  "real contribution \<Rightarrow> real contribution \<Rightarrow> real contribution list \<Rightarrow> exn + real contribution" where
  "SumUp a b rest = sum_from a (b # rest)"

text \<open>
  The container shape of a contribution (every number replaced by the unit value) and
  its numbers in order; the position of the first occurrence of a value in a list.
\<close>

definition container_shape :: "'a contribution \<Rightarrow> unit contribution" where
  "container_shape c = map_contribution (\<lambda>_. ()) c"

primrec numbers :: "'a contribution \<Rightarrow> 'a list" where
  "numbers (Number a) = [a]"
| "numbers (Array a) = data a"
| "numbers (Sequence cs) = concat (map numbers cs)"

definition first_index :: "'a list \<Rightarrow> 'a \<Rightarrow> nat" where
  "first_index xs x = length (takeWhile (\<lambda>y. y \<noteq> x) xs)"

section \<open>A concrete \<open>linalg\<close> for running the code\<close>

text \<open>
  Kernels for models with a single feature, where every linear system is one equation:
  the prediction is the logistic function of \<open>X @ beta\<close>, the Hessian is
  \<open>sum (x * x * p * (1 - p))\<close>, and a solver divides the gradient by the Hessian. The batched
  kernels take a batch of one model, and the batched Cholesky solver fails, as it does on
  a Hessian that is not positive definite. They are inputs for the checked examples
  below, not a model of the absent \<open>linalg\<close>.
\<close>

definition divide_by :: "array \<Rightarrow> array \<Rightarrow> exn + array" where
  "divide_by H g = Inr (NDArray (shape g) (map (\<lambda>v. v / hd (data H)) (data g)))"

definition one_feature_linalg :: linalg where
  "one_feature_linalg =
     \<lparr>CholeskySolver = \<lparr>is_QRSolver = False, run = divide_by\<rparr>,
      BatchedCholeskySolver = \<lparr>is_QRSolver = False, run = (\<lambda>H g. Inl LinAlgError)\<rparr>,
      BatchedInverseSolver = \<lparr>is_QRSolver = False, run = divide_by\<rparr>,
      mvmul = (\<lambda>A v. matmul A (NDArray [length (data v)] (data v))),
      batched_mvmul = (\<lambda>X b. case b of
          None \<Rightarrow> Inl TypeError
        | Some c \<Rightarrow> Inr (NDArray (butlast (shape X)) (map (\<lambda>x. x * hd (data c)) (data X)))),
      logistic_predict = (\<lambda>X b. case b of
          None \<Rightarrow> Inl TypeError
        | Some c \<Rightarrow> (case matmul X c of Inl e \<Rightarrow> Inl e | Inr z \<Rightarrow> Inr (sigmoid z))),
      logistic_hessian = (\<lambda>X p. Inr (NDArray [1, 1]
          [sum_list (map (\<lambda>(x, q). x * x * q * (1 - q)) (zip (data X) (data p)))])),
      batched_logistic_predict = (\<lambda>X b. case b of
          None \<Rightarrow> Inl TypeError
        | Some c \<Rightarrow> Inr (sigmoid (NDArray (butlast (shape X)) (map (\<lambda>x. x * hd (data c)) (data X))))),
      batched_logistic_residual = (\<lambda>y p. np_subtract (expand_dims y) p),
      batched_logistic_gradient = (\<lambda>X r. Inr (NDArray [1, 1] [vdot (data X) (data r)])),
      batched_logistic_hessian = (\<lambda>X p. Inr (NDArray [1, 1, 1]
          [sum_list (map (\<lambda>(x, q). x * x * q * (1 - q)) (zip (data X) (data p)))]))\<rparr>"




section \<open>Properties: construction from statistics and a QR solver\<close>

text \<open>
  C6. A constructor of a linear model that is given the aggregated statistics \<open>XtX\<close> and
  \<open>Xty\<close>, no coefficients, and a QR solver fails with the configuration error
  \<open>ValueError("QRSolver is not supported in constructor.")\<close>; it returns no model. This
  holds for the plain, the batched and the blocked constructor, whatever \<open>nmodels\<close> is.
  (The \<open>fit\<close> methods take the raw \<open>X\<close> and \<open>y\<close>, never the statistics.)
\<close>

theorem QRSolver_with_statistics_fails:
  assumes "is_QRSolver algo"
  shows "LinearRegression_init None (Some XtX) (Some Xty) algo include_bias =
           Inl (ValueError ''QRSolver is not supported in constructor.'' [])
       \<and> BatchedLinearRegression_init None (Some XtX) (Some Xty) algo include_bias =
           Inl (ValueError ''QRSolver is not supported in constructor.'' [])
       \<and> BlockedLinearRegression_init None (Some XtX) (Some Xty) nmodels algo =
           Inl (ValueError ''QRSolver is not supported in constructor.'' [])"
  using assms
  by (simp add: LinearRegression_init_def BatchedLinearRegression_init_def
      BlockedLinearRegression_init_def)

theorem QRSolver_with_statistics_fails_witness:
  "is_QRSolver \<lparr>is_QRSolver = True, run = (\<lambda>A b. Inr b)\<rparr>
   \<and> LinearRegression_init None (Some (NDArray [1, 1] [2::real])) (Some (NDArray [1] [4]))
        \<lparr>is_QRSolver = True, run = (\<lambda>A b. Inr b)\<rparr> False =
        Inl (ValueError ''QRSolver is not supported in constructor.'' [])
   \<and> BatchedLinearRegression_init None (Some (NDArray [1, 1] [2::real])) (Some (NDArray [1] [4]))
        \<lparr>is_QRSolver = True, run = (\<lambda>A b. Inr b)\<rparr> False =
        Inl (ValueError ''QRSolver is not supported in constructor.'' [])
   \<and> BlockedLinearRegression_init None (Some (NDArray [1, 1] [2::real])) (Some (NDArray [1] [4]))
        1 \<lparr>is_QRSolver = True, run = (\<lambda>A b. Inr b)\<rparr> =
        Inl (ValueError ''QRSolver is not supported in constructor.'' [])"
  using QRSolver_with_statistics_fails
    [of "\<lparr>is_QRSolver = True, run = (\<lambda>A b. Inr b)\<rparr>"
        "NDArray [1, 1] [2::real]" "NDArray [1] [4]" False 1]
  by simp

section \<open>Properties: construction without coefficients\<close>

text \<open>
  C4, as the code has it. Each of the three linear constructors (plain, batched, blocked),
  called with \<open>beta = None\<close> and with \<open>XtX\<close> or \<open>Xty\<close> missing, fails at once with
  \<open>ValueError("Must provide XtX and Xty, since beta is not provided.")\<close>, and every instance
  one of them returns holds a coefficient state. The two logistic constructors take no
  statistics and validate nothing: they return an instance that stores the \<open>beta\<close> they
  are given, \<open>None\<close> included.
\<close>

theorem linear_constructors_require_beta_or_statistics:
  "(XtX = None \<or> Xty = None \<longrightarrow>
      LinearRegression_init None XtX Xty algo include_bias =
        Inl (ValueError ''Must provide XtX and Xty, since beta is not provided.'' [])
    \<and> BatchedLinearRegression_init None XtX Xty algo include_bias =
        Inl (ValueError ''Must provide XtX and Xty, since beta is not provided.'' [])
    \<and> BlockedLinearRegression_init None XtX Xty nmodels algo =
        Inl (ValueError ''Must provide XtX and Xty, since beta is not provided.'' []))
   \<and> (LinearRegression_init beta XtX Xty algo include_bias = Inr m1 \<longrightarrow>
        LinearRegression__beta m1 \<noteq> None)
   \<and> (BatchedLinearRegression_init beta XtX Xty algo include_bias = Inr m2 \<longrightarrow>
        BatchedLinearRegression__beta m2 \<noteq> None)
   \<and> (BlockedLinearRegression_init beta XtX Xty nmodels algo = Inr m3 \<longrightarrow>
        BlockedLinearRegression__beta m3 \<noteq> None)
   \<and> LogisticRegression_init beta = Inr \<lparr>LogisticRegression__beta = beta\<rparr>
   \<and> BatchedLogisticRegression_init beta acc =
        Inr \<lparr>BatchedLogisticRegression__beta = beta, acceleration = acc\<rparr>"
proof -
  have missing: "XtX = None \<or> Xty = None \<longrightarrow>
      LinearRegression_init None XtX Xty algo include_bias =
        Inl (ValueError ''Must provide XtX and Xty, since beta is not provided.'' [])
    \<and> BatchedLinearRegression_init None XtX Xty algo include_bias =
        Inl (ValueError ''Must provide XtX and Xty, since beta is not provided.'' [])
    \<and> BlockedLinearRegression_init None XtX Xty nmodels algo =
        Inl (ValueError ''Must provide XtX and Xty, since beta is not provided.'' [])"
    by (simp add: LinearRegression_init_def BatchedLinearRegression_init_def
        BlockedLinearRegression_init_def)
  have plain: "LinearRegression_init beta XtX Xty algo include_bias = Inr m1 \<longrightarrow>
        LinearRegression__beta m1 \<noteq> None"
    by (auto simp: LinearRegression_init_def split: if_splits sum.splits)
  have batched: "BatchedLinearRegression_init beta XtX Xty algo include_bias = Inr m2 \<longrightarrow>
        BatchedLinearRegression__beta m2 \<noteq> None"
    by (auto simp: BatchedLinearRegression_init_def split: if_splits sum.splits)
  have blocked: "BlockedLinearRegression_init beta XtX Xty nmodels algo = Inr m3 \<longrightarrow>
        BlockedLinearRegression__beta m3 \<noteq> None"
    by (auto simp: BlockedLinearRegression_init_def split: if_splits sum.splits)
  show ?thesis
    using missing plain batched blocked
    by (simp add: LogisticRegression_init_def BatchedLogisticRegression_init_def)
qed

theorem linear_constructors_require_beta_or_statistics_witness:
  "LinearRegression_init None None (Some (NDArray [1] [4])) \<lparr>is_QRSolver = False, run = (\<lambda>A b. Inr b)\<rparr> False =
      Inl (ValueError ''Must provide XtX and Xty, since beta is not provided.'' [])
   \<and> BatchedLinearRegression_init None None (Some (NDArray [1] [4])) \<lparr>is_QRSolver = False, run = (\<lambda>A b. Inr b)\<rparr> False =
      Inl (ValueError ''Must provide XtX and Xty, since beta is not provided.'' [])
   \<and> BlockedLinearRegression_init None None (Some (NDArray [1] [4])) 1 \<lparr>is_QRSolver = False, run = (\<lambda>A b. Inr b)\<rparr> =
      Inl (ValueError ''Must provide XtX and Xty, since beta is not provided.'' [])
   \<and> LinearRegression_init None (Some (NDArray [1, 1] [2])) (Some (NDArray [1] [4]))
        \<lparr>is_QRSolver = False, run = (\<lambda>A b. Inr b)\<rparr> False =
      Inr \<lparr>LinearRegression__beta = Some (NDArray [1] [4]), LinearRegression__include_bias = False\<rparr>
   \<and> LinearRegression__beta
        \<lparr>LinearRegression__beta = Some (NDArray [1] [4]), LinearRegression__include_bias = False\<rparr> \<noteq> None
   \<and> BatchedLinearRegression_init None (Some (NDArray [1, 1] [2])) (Some (NDArray [1] [4]))
        \<lparr>is_QRSolver = False, run = (\<lambda>A b. Inr b)\<rparr> False =
      Inr \<lparr>BatchedLinearRegression__beta = Some (NDArray [1] [4]),
           BatchedLinearRegression__include_bias = False\<rparr>
   \<and> BlockedLinearRegression_init None (Some (NDArray [1, 1] [2])) (Some (NDArray [1] [4])) 1
        \<lparr>is_QRSolver = False, run = (\<lambda>A b. Inr b)\<rparr> =
      Inr \<lparr>BlockedLinearRegression__beta = Some (NDArray [1] [4]),
           BlockedLinearRegression__nmodels = 1\<rparr>"
proof -
  have missing: "(None :: array option) = None \<or> Some (NDArray [1] [4::real]) = None" by simp
  have built: "LinearRegression_init None (Some (NDArray [1, 1] [2])) (Some (NDArray [1] [4]))
        \<lparr>is_QRSolver = False, run = (\<lambda>A b. Inr b)\<rparr> False =
      Inr \<lparr>LinearRegression__beta = Some (NDArray [1] [4]), LinearRegression__include_bias = False\<rparr>"
    by (simp add: LinearRegression_init_def)
  have built2: "BatchedLinearRegression_init None (Some (NDArray [1, 1] [2])) (Some (NDArray [1] [4]))
        \<lparr>is_QRSolver = False, run = (\<lambda>A b. Inr b)\<rparr> False =
      Inr \<lparr>BatchedLinearRegression__beta = Some (NDArray [1] [4]),
           BatchedLinearRegression__include_bias = False\<rparr>"
    by (simp add: BatchedLinearRegression_init_def)
  have built3: "BlockedLinearRegression_init None (Some (NDArray [1, 1] [2])) (Some (NDArray [1] [4])) 1
        \<lparr>is_QRSolver = False, run = (\<lambda>A b. Inr b)\<rparr> =
      Inr \<lparr>BlockedLinearRegression__beta = Some (NDArray [1] [4]),
           BlockedLinearRegression__nmodels = 1\<rparr>"
    by (simp add: BlockedLinearRegression_init_def shape_first_def py_mod_def)
  from linear_constructors_require_beta_or_statistics
    [of None "Some (NDArray [1] [4])" "\<lparr>is_QRSolver = False, run = (\<lambda>A b. Inr b)\<rparr>" False 1]
    missing
  have failing: "LinearRegression_init None None (Some (NDArray [1] [4])) \<lparr>is_QRSolver = False, run = (\<lambda>A b. Inr b)\<rparr> False =
      Inl (ValueError ''Must provide XtX and Xty, since beta is not provided.'' [])
   \<and> BatchedLinearRegression_init None None (Some (NDArray [1] [4])) \<lparr>is_QRSolver = False, run = (\<lambda>A b. Inr b)\<rparr> False =
      Inl (ValueError ''Must provide XtX and Xty, since beta is not provided.'' [])
   \<and> BlockedLinearRegression_init None None (Some (NDArray [1] [4])) 1 \<lparr>is_QRSolver = False, run = (\<lambda>A b. Inr b)\<rparr> =
      Inl (ValueError ''Must provide XtX and Xty, since beta is not provided.'' [])"
    by blast
  from linear_constructors_require_beta_or_statistics
    [of "Some (NDArray [1, 1] [2])" "Some (NDArray [1] [4])"
        "\<lparr>is_QRSolver = False, run = (\<lambda>A b. Inr b)\<rparr>" False 1 None
        "\<lparr>LinearRegression__beta = Some (NDArray [1] [4]), LinearRegression__include_bias = False\<rparr>"]
    built
  have stored: "LinearRegression__beta
        \<lparr>LinearRegression__beta = Some (NDArray [1] [4]), LinearRegression__include_bias = False\<rparr> \<noteq> None"
    by blast
  show ?thesis using failing stored built built2 built3 by blast
qed

theorem logistic_constructor_accepts_None:
  "LogisticRegression_init None = Inr \<lparr>LogisticRegression__beta = None\<rparr>
   \<and> BatchedLogisticRegression_init None ''single'' =
       Inr \<lparr>BatchedLogisticRegression__beta = None, acceleration = ''single''\<rparr>"
  by (simp add: LogisticRegression_init_def BatchedLogisticRegression_init_def)

section \<open>Properties: degrees of freedom\<close>

text \<open>
  C5, as the code has it. For the three linear variants and every observation count \<open>n\<close>,
  \<open>dof(n)\<close> is computed from the shape of the stored coefficients alone. Plain: \<open>n - p\<close>
  without a bias term and \<open>n - p - 1\<close> with one, \<open>p\<close> the first axis of \<open>beta\<close>. Batched:
  the same with \<open>p\<close> the last axis of \<open>beta\<close>. Blocked: \<open>n - p\<close> with \<open>p\<close> the coefficients
  per model, \<open>beta.shape[0] // nmodels\<close>; the blocked model has no bias option. The logistic
  variants have no \<open>dof\<close> operation.
\<close>

theorem dof_of_linear_variants:
  "(LinearRegression__beta m1 = Some b \<and> shape b = p # rest \<longrightarrow>
      dof (Linear m1) n =
        Inr (if LinearRegression__include_bias m1 then n - int p - 1 else n - int p))
   \<and> (BatchedLinearRegression__beta m2 = Some b \<and> shape b = rest @ [p] \<longrightarrow>
      dof (Batched m2) n =
        Inr (if BatchedLinearRegression__include_bias m2 then n - int p - 1 else n - int p))
   \<and> (BlockedLinearRegression__beta m3 = Some b \<and> shape b = p # rest
        \<and> BlockedLinearRegression__nmodels m3 \<noteq> 0 \<longrightarrow>
      dof (Blocked m3) n = Inr (n - int p div BlockedLinearRegression__nmodels m3))"
proof -
  have plain: "LinearRegression__beta m1 = Some b \<and> shape b = p # rest \<longrightarrow>
      dof (Linear m1) n =
        Inr (if LinearRegression__include_bias m1 then n - int p - 1 else n - int p)"
    by (simp add: LinearRegression_dof_def shape_first_def)
  have batched: "BatchedLinearRegression__beta m2 = Some b \<and> shape b = rest @ [p] \<longrightarrow>
      dof (Batched m2) n =
        Inr (if BatchedLinearRegression__include_bias m2 then n - int p - 1 else n - int p)"
    by (simp add: BatchedLinearRegression_dof_def BatchedLinearRegression_coef_def shape_last_def)
  have blocked: "BlockedLinearRegression__beta m3 = Some b \<and> shape b = p # rest
        \<and> BlockedLinearRegression__nmodels m3 \<noteq> 0 \<longrightarrow>
      dof (Blocked m3) n = Inr (n - int p div BlockedLinearRegression__nmodels m3)"
    by (simp add: BlockedLinearRegression_dof_def coef_dim_def shape_first_def py_floordiv_def)
  show ?thesis using plain batched blocked by blast
qed

theorem dof_of_linear_variants_witness:
  "dof (Linear \<lparr>LinearRegression__beta = Some (NDArray [3] [1, 2, 3]),
                LinearRegression__include_bias = True\<rparr>) 10 = Inr 6
   \<and> dof (Batched \<lparr>BatchedLinearRegression__beta = Some (NDArray [2, 3] [1, 2, 3, 4, 5, 6]),
                   BatchedLinearRegression__include_bias = False\<rparr>) 10 = Inr 7
   \<and> dof (Blocked \<lparr>BlockedLinearRegression__beta = Some (NDArray [6] [1, 2, 3, 4, 5, 6]),
                   BlockedLinearRegression__nmodels = 2\<rparr>) 10 = Inr 7"
  using dof_of_linear_variants
    [of "\<lparr>LinearRegression__beta = Some (NDArray [3] [1, 2, 3]),
          LinearRegression__include_bias = True\<rparr>"
        "NDArray [3] [1, 2, 3]" 3 "[]" 10
        "\<lparr>BatchedLinearRegression__beta = Some (NDArray [3] [1, 2, 3]),
          BatchedLinearRegression__include_bias = False\<rparr>"
        "\<lparr>BlockedLinearRegression__beta = Some (NDArray [3] [1, 2, 3]),
          BlockedLinearRegression__nmodels = 1\<rparr>"]
    dof_of_linear_variants
    [of "\<lparr>LinearRegression__beta = Some (NDArray [2, 3] [1, 2, 3, 4, 5, 6]),
          LinearRegression__include_bias = True\<rparr>"
        "NDArray [2, 3] [1, 2, 3, 4, 5, 6]" 3 "[2]" 10
        "\<lparr>BatchedLinearRegression__beta = Some (NDArray [2, 3] [1, 2, 3, 4, 5, 6]),
          BatchedLinearRegression__include_bias = False\<rparr>"
        "\<lparr>BlockedLinearRegression__beta = Some (NDArray [3] [1, 2, 3]),
          BlockedLinearRegression__nmodels = 1\<rparr>"]
    dof_of_linear_variants
    [of "\<lparr>LinearRegression__beta = Some (NDArray [3] [1, 2, 3]),
          LinearRegression__include_bias = True\<rparr>"
        "NDArray [6] [1, 2, 3, 4, 5, 6]" 6 "[]" 10
        "\<lparr>BatchedLinearRegression__beta = Some (NDArray [3] [1, 2, 3]),
          BatchedLinearRegression__include_bias = False\<rparr>"
        "\<lparr>BlockedLinearRegression__beta = Some (NDArray [6] [1, 2, 3, 4, 5, 6]),
          BlockedLinearRegression__nmodels = 2\<rparr>"]
  by simp

theorem logistic_models_have_no_dof:
  "dof (Logistic \<lparr>LogisticRegression__beta = Some (NDArray [2] [0, 0])\<rparr>) 10 =
     Inl (AttributeError ''dof'')
   \<and> dof (BatchedLogistic \<lparr>BatchedLogisticRegression__beta = Some (NDArray [1, 2] [0, 0]),
                           acceleration = ''single''\<rparr>) 10 =
     Inl (AttributeError ''dof'')"
  by simp

section \<open>Properties: construction from given coefficients\<close>

text \<open>
  C10. When \<open>beta\<close> is given, the plain and the batched constructor succeed for every
  \<open>XtX\<close>, \<open>Xty\<close> and \<open>algo\<close> (a QR solver and a solver that always raises included), and
  \<open>coef\<close> is the given \<open>beta\<close>. The blocked constructor, for a \<open>beta\<close> with a first axis of
  length \<open>p\<close> and \<open>nmodels\<close> other than zero, succeeds exactly when \<open>p % nmodels = 0\<close>, again
  for every \<open>XtX\<close>, \<open>Xty\<close> and \<open>algo\<close>, with \<open>coef\<close> the given \<open>beta\<close>; otherwise it raises
  the \<open>ValueError\<close> of the divisibility check.
\<close>

theorem given_beta_is_stored:
  "LinearRegression_init (Some b) XtX Xty algo include_bias =
      Inr \<lparr>LinearRegression__beta = Some b, LinearRegression__include_bias = include_bias\<rparr>
   \<and> LinearRegression_coef
        \<lparr>LinearRegression__beta = Some b, LinearRegression__include_bias = include_bias\<rparr> = Some b
   \<and> BatchedLinearRegression_init (Some b) XtX Xty algo include_bias =
      Inr \<lparr>BatchedLinearRegression__beta = Some b,
           BatchedLinearRegression__include_bias = include_bias\<rparr>
   \<and> BatchedLinearRegression_coef
        \<lparr>BatchedLinearRegression__beta = Some b,
          BatchedLinearRegression__include_bias = include_bias\<rparr> = Some b
   \<and> (shape b = p # rest \<and> nmodels \<noteq> 0 \<longrightarrow>
        BlockedLinearRegression_init (Some b) XtX Xty nmodels algo =
          (if int p mod nmodels = 0
           then Inr \<lparr>BlockedLinearRegression__beta = Some b,
                     BlockedLinearRegression__nmodels = nmodels\<rparr>
           else Inl (ValueError
                  ''Dimension of beta ({}) is not divisible by number of models ({}).''
                  [int p, nmodels])))
   \<and> BlockedLinearRegression_coef
        \<lparr>BlockedLinearRegression__beta = Some b, BlockedLinearRegression__nmodels = nmodels\<rparr> =
      Some b"
  by (simp add: LinearRegression_init_def BatchedLinearRegression_init_def
      BlockedLinearRegression_init_def LinearRegression_coef_def BatchedLinearRegression_coef_def
      BlockedLinearRegression_coef_def shape_first_def py_mod_def)

theorem given_beta_is_stored_witness:
  "LinearRegression_init (Some (NDArray [4] [1, 2, 3, 4])) None None
      \<lparr>is_QRSolver = True, run = (\<lambda>A b. Inl LinAlgError)\<rparr> True =
      Inr \<lparr>LinearRegression__beta = Some (NDArray [4] [1, 2, 3, 4]),
           LinearRegression__include_bias = True\<rparr>
   \<and> BatchedLinearRegression_init (Some (NDArray [4] [1, 2, 3, 4])) None None
      \<lparr>is_QRSolver = True, run = (\<lambda>A b. Inl LinAlgError)\<rparr> True =
      Inr \<lparr>BatchedLinearRegression__beta = Some (NDArray [4] [1, 2, 3, 4]),
           BatchedLinearRegression__include_bias = True\<rparr>
   \<and> BlockedLinearRegression_init (Some (NDArray [4] [1, 2, 3, 4])) None None 2
      \<lparr>is_QRSolver = True, run = (\<lambda>A b. Inl LinAlgError)\<rparr> =
      Inr \<lparr>BlockedLinearRegression__beta = Some (NDArray [4] [1, 2, 3, 4]),
           BlockedLinearRegression__nmodels = 2\<rparr>
   \<and> BlockedLinearRegression_init (Some (NDArray [4] [1, 2, 3, 4])) None None 3
      \<lparr>is_QRSolver = True, run = (\<lambda>A b. Inl LinAlgError)\<rparr> =
      Inl (ValueError ''Dimension of beta ({}) is not divisible by number of models ({}).''
            [4, 3])"
  using given_beta_is_stored
    [of "NDArray [4] [1, 2, 3, 4]" None None
        "\<lparr>is_QRSolver = True, run = (\<lambda>A b. Inl LinAlgError)\<rparr>" True 4 "[]" 2]
    given_beta_is_stored
    [of "NDArray [4] [1, 2, 3, 4]" None None
        "\<lparr>is_QRSolver = True, run = (\<lambda>A b. Inl LinAlgError)\<rparr>" True 4 "[]" 3]
  by simp

section \<open>Properties: the per-block sum of squares\<close>

lemma cumsum_from_length: "length (cumsum_from a xs) = length xs"
  by (induction xs arbitrary: a) auto

lemma cumsum_from_nth:
  "i < length xs \<Longrightarrow> cumsum_from a xs ! i = a + sum_list (take (Suc i) xs)"
proof (induction xs arbitrary: a i)
  case Nil
  then show ?case by simp
next
  case (Cons x xs)
  show ?case
  proof (cases i)
    case 0
    then show ?thesis by simp
  next
    case (Suc j)
    with Cons.prems have "j < length xs" by simp
    from Cons.IH [OF this, of "a + x"] Suc show ?thesis by simp
  qed
qed

lemma block_starts_length:
  "length (np_cumsum (np_insert_front nobss 0)) = Suc (length nobss)"
  by (simp add: np_cumsum_def np_insert_front_def cumsum_from_length)

lemma block_starts_nth:
  assumes "i \<le> length nobss"
  shows "np_cumsum (np_insert_front nobss 0) ! i = sum_list (take i nobss)"
proof (cases i)
  case 0
  then show ?thesis by (simp add: np_cumsum_def np_insert_front_def)
next
  case (Suc j)
  with assms have "j < length nobss" by simp
  from cumsum_from_nth [OF this, of 0] Suc show ?thesis
    by (simp add: np_cumsum_def np_insert_front_def)
qed

lemma sum_list_nonneg_int: "\<forall>c\<in>set cs. (0::int) \<le> c \<Longrightarrow> 0 \<le> sum_list cs"
  by (induction cs) auto

lemma sum_list_take_le:
  assumes "\<forall>c\<in>set cs. (0::int) \<le> c"
  shows "sum_list (take i cs) \<le> sum_list cs"
proof -
  have "sum_list cs = sum_list (take i cs) + sum_list (drop i cs)"
    by (metis append_take_drop_id sum_list_append)
  moreover have "0 \<le> sum_list (drop i cs)"
    using assms by (intro sum_list_nonneg_int) (auto dest: in_set_dropD)
  ultimately show ?thesis by simp
qed

lemma sum_list_take_Suc:
  "i < length cs \<Longrightarrow> sum_list (take (Suc i) cs) = sum_list (take i cs) + (cs ! i :: int)"
  by (simp add: take_Suc_conv_app_nth)

lemma py_slice_inside:
  assumes "0 \<le> a" and "a \<le> b" and "b \<le> int (length xs)"
  shows "py_slice xs a b = take (nat (b - a)) (drop (nat a) xs)"
proof -
  have "slice_bound (length xs) a = nat a" and "slice_bound (length xs) b = nat b"
    using assms by (simp_all add: slice_bound_def Let_def)
  moreover have "nat b - nat a = nat (b - a)"
    using assms by simp
  ultimately show ?thesis by (simp add: py_slice_def Let_def)
qed

lemma vdot_self_append: "vdot (xs @ ys) (xs @ ys) = vdot xs xs + vdot ys ys"
  by (simp add: vdot_def)

lemma sum_of_blocks:
  assumes "\<forall>c\<in>set cs. 0 \<le> c" and "sum_list cs \<le> int (length d)"
  shows "sum_list (map (\<lambda>i. vdot (take (nat (cs ! i)) (drop (nat (sum_list (take i cs))) d))
                               (take (nat (cs ! i)) (drop (nat (sum_list (take i cs))) d)))
                    [0..<length cs])
         = vdot (take (nat (sum_list cs)) d) (take (nat (sum_list cs)) d)"
  using assms
proof (induction cs rule: rev_induct)
  case Nil
  then show ?case by (simp add: vdot_def)
next
  case (snoc c cs)
  let ?g = "\<lambda>zs i. vdot (take (nat (zs ! i)) (drop (nat (sum_list (take i zs))) d))
                         (take (nat (zs ! i)) (drop (nat (sum_list (take i zs))) d))"
  have nonneg: "\<forall>c\<in>set cs. 0 \<le> c" and c0: "0 \<le> c"
    using snoc.prems(1) by auto
  have s0: "0 \<le> sum_list cs" using nonneg by (rule sum_list_nonneg_int)
  have le: "sum_list cs \<le> int (length d)" using snoc.prems(2) c0 by simp
  have same: "map (?g (cs @ [c])) [0..<length cs] = map (?g cs) [0..<length cs]"
    by (rule map_cong) (auto simp: nth_append)
  have last_block: "?g (cs @ [c]) (length cs)
      = vdot (take (nat c) (drop (nat (sum_list cs)) d)) (take (nat c) (drop (nat (sum_list cs)) d))"
    by simp
  have split: "take (nat (sum_list cs + c)) d
             = take (nat (sum_list cs)) d @ take (nat c) (drop (nat (sum_list cs)) d)"
    using s0 c0 by (simp add: nat_add_distrib take_add)
  have "sum_list (map (?g (cs @ [c])) [0..<length (cs @ [c])])
      = sum_list (map (?g (cs @ [c])) [0..<length cs]) + ?g (cs @ [c]) (length cs)"
    by simp
  also have "\<dots> = sum_list (map (?g cs) [0..<length cs])
      + vdot (take (nat c) (drop (nat (sum_list cs)) d)) (take (nat c) (drop (nat (sum_list cs)) d))"
    by (simp only: same last_block)
  also have "\<dots> = vdot (take (nat (sum_list cs)) d) (take (nat (sum_list cs)) d)
      + vdot (take (nat c) (drop (nat (sum_list cs)) d)) (take (nat c) (drop (nat (sum_list cs)) d))"
    using snoc.IH [OF nonneg le] by simp
  also have "\<dots> = vdot (take (nat (sum_list (cs @ [c]))) d) (take (nat (sum_list (cs @ [c]))) d)"
    by (simp add: split vdot_self_append)
  finally show ?case .
qed

text \<open>
  C8. Let \<open>res\<close> be the one-dimensional residual \<open>y - X @ beta\<close> of a blocked model and
  \<open>nobss\<close> the per-block sample counts: non-negative, equal or unequal, summing to the
  length of \<open>res\<close>. Then \<open>sse(X, y, nobss)\<close> returns one value per entry of \<open>nobss\<close>; the
  \<open>i\<close>-th value is the sum of squares of the \<open>nobss[i]\<close> residuals that start at the
  cumulative sum of the counts before \<open>i\<close>; and the values add up to the sum of squares of
  the whole residual vector.
\<close>

theorem blocked_sse_partitions_residual:
  assumes "BlockedLinearRegression_residual self X y = Inr res"
    and "length (shape res) = 1"
    and "\<forall>c\<in>set nobss. 0 \<le> c"
    and "sum_list nobss = int (length (data res))"
  shows "\<exists>vals. BlockedLinearRegression_sse self X y nobss = Inr (NDArray [length nobss] vals)
           \<and> length vals = length nobss
           \<and> (\<forall>i<length nobss.
                 vals ! i = vdot (take (nat (nobss ! i)) (drop (nat (sum_list (take i nobss))) (data res)))
                                 (take (nat (nobss ! i)) (drop (nat (sum_list (take i nobss))) (data res))))
           \<and> sum_list vals = vdot (data res) (data res)"
proof -
  let ?bs = "np_cumsum (np_insert_front nobss 0)"
  let ?d = "data res"
  let ?blk = "\<lambda>i. take (nat (nobss ! i)) (drop (nat (sum_list (take i nobss))) ?d)"
  let ?vals = "map (\<lambda>i. vdot (?blk i) (?blk i)) [0..<length nobss]"
  have slice: "py_slice ?d (?bs ! i) (?bs ! Suc i) = ?blk i" if "i < length nobss" for i
  proof -
    have lo: "?bs ! i = sum_list (take i nobss)"
      using that by (simp add: block_starts_nth)
    have hi: "?bs ! Suc i = sum_list (take i nobss) + nobss ! i"
      using that by (simp add: block_starts_nth sum_list_take_Suc)
    have "0 \<le> sum_list (take i nobss)"
      using assms(3) by (intro sum_list_nonneg_int) (auto dest: in_set_takeD)
    moreover have "0 \<le> nobss ! i"
      using assms(3) that by simp
    moreover have "sum_list (take i nobss) + nobss ! i \<le> int (length ?d)"
      using sum_list_take_le [OF assms(3), of "Suc i"] that assms(4)
      by (simp add: sum_list_take_Suc)
    ultimately show ?thesis
      using py_slice_inside [of "sum_list (take i nobss)" "sum_list (take i nobss) + nobss ! i" ?d]
      by (simp add: lo hi)
  qed
  have blocks: "map (\<lambda>i. vdot (py_slice ?d (?bs ! i) (?bs ! Suc i)) (py_slice ?d (?bs ! i) (?bs ! Suc i)))
            [0..<length nobss] = ?vals"
    by (rule map_cong) (simp_all add: slice)
  have "BlockedLinearRegression_sse self X y nobss =
          Inr (NDArray [length nobss]
            (map (\<lambda>i. vdot (py_slice ?d (?bs ! i) (?bs ! Suc i)) (py_slice ?d (?bs ! i) (?bs ! Suc i)))
               [0..<length nobss]))"
    using assms(1,2) by (simp add: BlockedLinearRegression_sse_def block_starts_length Let_def)
  then have sse: "BlockedLinearRegression_sse self X y nobss = Inr (NDArray [length nobss] ?vals)"
    by (simp only: blocks)
  have total: "sum_list ?vals = vdot ?d ?d"
    using sum_of_blocks [OF assms(3), of ?d] assms(4) by simp
  show ?thesis
    using sse total by (intro exI [of _ ?vals]) simp
qed

theorem blocked_sse_partitions_residual_witness:
  "BlockedLinearRegression_residual
      \<lparr>BlockedLinearRegression__beta = Some (NDArray [2] [1, 2]), BlockedLinearRegression__nmodels = 2\<rparr>
      (NDArray [3, 2] [1, 0, 1, 0, 0, 1]) (NDArray [3] [2, 3, 4]) = Inr (NDArray [3] [1, 2, 2])
   \<and> BlockedLinearRegression_sse
      \<lparr>BlockedLinearRegression__beta = Some (NDArray [2] [1, 2]), BlockedLinearRegression__nmodels = 2\<rparr>
      (NDArray [3, 2] [1, 0, 1, 0, 0, 1]) (NDArray [3] [2, 3, 4]) [2, 1] = Inr (NDArray [2] [5, 4])
   \<and> sum_list [5, 4] = vdot [1, 2, 2] [1, 2, 2]"
proof -
  let ?m = "\<lparr>BlockedLinearRegression__beta = Some (NDArray [2] [1, 2]),
             BlockedLinearRegression__nmodels = 2\<rparr>"
  let ?X = "NDArray [3, 2] [1, 0, 1, 0, 0, 1] :: array"
  let ?y = "NDArray [3] [2, 3, 4] :: array"
  have res: "BlockedLinearRegression_residual ?m ?X ?y = Inr (NDArray [3] [1, 2, 2])"
    by (simp add: BlockedLinearRegression_residual_def BlockedLinearRegression_predict_def
        matmul_def np_subtract_def np_binop_def broadcast_shapes_def pad_shape_def block_def
        vdot_def upt_rec numeral_nat)
  have counts: "\<forall>c\<in>set [2, 1 :: int]. 0 \<le> c" by simp
  from blocked_sse_partitions_residual [OF res _ counts]
  obtain vals where
    v: "BlockedLinearRegression_sse ?m ?X ?y [2, 1] = Inr (NDArray [length [2, 1 :: int]] vals)"
      "length vals = 2"
      "\<forall>i<2. vals ! i = vdot (take (nat ([2, 1] ! i)) (drop (nat (sum_list (take i [2, 1]))) [1, 2, 2]))
                              (take (nat ([2, 1] ! i)) (drop (nat (sum_list (take i [2, 1]))) [1, 2, 2]))"
      "sum_list vals = vdot [1, 2, 2] [1, 2, 2]"
    by auto
  from v(3) have "vals ! 0 = 5" and "vals ! 1 = 4"
    by (simp_all add: vdot_def)
  with v(2) have "vals = [5, 4]"
    by (cases vals; cases "tl vals") auto
  with v(1,4) res show ?thesis by simp
qed

section \<open>Properties of the array operations\<close>


lemma block_of_take: "i < n \<Longrightarrow> block k i (take (n * k) xs) = block k i xs"
proof -
  assume im: "i < n"
  have "Suc i * k \<le> n * k" using im by (simp add: Suc_leI mult_le_mono1 del: mult_Suc)
  then have le: "k \<le> n * k - i * k" by simp
  have "block k i (take (n * k) xs) = take k (take (n * k - i * k) (drop (i * k) xs))"
    by (simp only: block_def drop_take)
  also have "\<dots> = block k i xs"
    using le by (simp only: take_take min.absorb1 block_def)
  finally show ?thesis .
qed












section \<open>Properties: one Newton step per call of \<open>fit\<close>\<close>


lemma LogisticRegression_beta_broadcast_mismatch:
  assumes "LogisticRegression__beta self = Some b" "run slv H g = Inr s"
    "broadcast_shapes (shape (expand_dims b)) (shape s) = Inl e"
  shows "LogisticRegression_beta self g H slv = Inl TypeError"
  using assms by (simp add: LogisticRegression_beta_def jnp_add_def jnp_binop_def np_binop_def)











section \<open>Properties: the solver fallback of the batched Newton update\<close>

text \<open>
  C7. In \<open>BatchedLogisticRegression\<close> the coefficient update first uses the batched
  Cholesky solver: when that solve and the addition to \<open>beta\<close> go through, their result is
  the update. When the Cholesky solve raises, the update is what the same expression gives
  with the batched inverse solver on the same Hessian and gradient, so nothing is raised to
  the caller if the inverse solver succeeds, and an exception of the inverse solver is the
  exception of the update. The fallback covers the update only: an exception while \<open>fit\<close>
  computes the gradient or the Hessian is the exception of \<open>fit\<close>, and otherwise \<open>fit\<close>
  stores the update or raises what the update raises.
\<close>

theorem batched_update_falls_back_to_inverse_solver:
  "(run (BatchedCholeskySolver L) H g = Inr s
      \<and> add_to_beta (BatchedLogisticRegression__beta self) s = Inr b \<longrightarrow>
      BatchedLogisticRegression_beta L self g H (BatchedCholeskySolver L) = Inr b)
   \<and> (run (BatchedCholeskySolver L) H g = Inl e \<longrightarrow>
      BatchedLogisticRegression_beta L self g H (BatchedCholeskySolver L) =
        (case run (BatchedInverseSolver L) H g of
           Inl e' \<Rightarrow> Inl e'
         | Inr s' \<Rightarrow> add_to_beta (BatchedLogisticRegression__beta self) s'))
   \<and> (run (BatchedCholeskySolver L) H g = Inl e \<and> run (BatchedInverseSolver L) H g = Inl e' \<longrightarrow>
      BatchedLogisticRegression_beta L self g H (BatchedCholeskySolver L) = Inl e')
   \<and> (BatchedLogisticRegression_gradient L utils_mod device_count self X y = Inl e \<longrightarrow>
      BatchedLogisticRegression_fit L utils_mod device_count self X y = Inl e)
   \<and> (BatchedLogisticRegression_gradient L utils_mod device_count self X y = Inr g
      \<and> BatchedLogisticRegression_hessian L utils_mod device_count self X = Inl e \<longrightarrow>
      BatchedLogisticRegression_fit L utils_mod device_count self X y = Inl e)
   \<and> (BatchedLogisticRegression_gradient L utils_mod device_count self X y = Inr g
      \<and> BatchedLogisticRegression_hessian L utils_mod device_count self X = Inr H \<longrightarrow>
      BatchedLogisticRegression_fit L utils_mod device_count self X y =
        (case BatchedLogisticRegression_beta L self g H (BatchedCholeskySolver L) of
           Inl e' \<Rightarrow> Inl e'
         | Inr b' \<Rightarrow> Inr (self\<lparr>BatchedLogisticRegression__beta := Some b'\<rparr>)))"
  by (simp add: BatchedLogisticRegression_beta_def BatchedLogisticRegression_fit_def)

theorem batched_update_falls_back_to_inverse_solver_witness:
  "BatchedLogisticRegression_beta
      (one_feature_linalg\<lparr>BatchedCholeskySolver := \<lparr>is_QRSolver = False, run = divide_by\<rparr>\<rparr>)
      \<lparr>BatchedLogisticRegression__beta = Some (NDArray [1, 1] [0]), acceleration = ''single''\<rparr>
      (NDArray [1, 1] [1 / 2]) (NDArray [1, 1, 1] [1 / 4])
      (BatchedCholeskySolver
        (one_feature_linalg\<lparr>BatchedCholeskySolver := \<lparr>is_QRSolver = False, run = divide_by\<rparr>\<rparr>))
     = Inr (NDArray [1, 1] [2])
   \<and> BatchedLogisticRegression_beta one_feature_linalg
      \<lparr>BatchedLogisticRegression__beta = Some (NDArray [1, 1] [0]), acceleration = ''single''\<rparr>
      (NDArray [1, 1] [1 / 2]) (NDArray [1, 1, 1] [1 / 4]) (BatchedCholeskySolver one_feature_linalg)
     = Inr (NDArray [1, 1] [2])
   \<and> BatchedLogisticRegression_beta
      (one_feature_linalg\<lparr>BatchedInverseSolver :=
         \<lparr>is_QRSolver = False, run = (\<lambda>H g. Inl ZeroDivisionError)\<rparr>\<rparr>)
      \<lparr>BatchedLogisticRegression__beta = Some (NDArray [1, 1] [0]), acceleration = ''single''\<rparr>
      (NDArray [1, 1] [1 / 2]) (NDArray [1, 1, 1] [1 / 4])
      (BatchedCholeskySolver
        (one_feature_linalg\<lparr>BatchedInverseSolver :=
           \<lparr>is_QRSolver = False, run = (\<lambda>H g. Inl ZeroDivisionError)\<rparr>\<rparr>))
     = Inl ZeroDivisionError
   \<and> BatchedLogisticRegression_fit one_feature_linalg (utils 1) 1
      \<lparr>BatchedLogisticRegression__beta = Some (NDArray [1, 1] [0]), acceleration = ''gpu''\<rparr>
      (NDArray [1, 1, 1] [1]) (NDArray [1, 1] [1])
     = Inl (ValueError ''gpu acceleration is not supported.'' [])
   \<and> BatchedLogisticRegression_fit
      (one_feature_linalg\<lparr>batched_logistic_hessian := (\<lambda>X p. Inl LinAlgError)\<rparr>) (utils 1) 1
      \<lparr>BatchedLogisticRegression__beta = Some (NDArray [1, 1] [0]), acceleration = ''single''\<rparr>
      (NDArray [1, 1, 1] [1]) (NDArray [1, 1] [1])
     = Inl LinAlgError
   \<and> BatchedLogisticRegression_fit one_feature_linalg (utils 1) 1
      \<lparr>BatchedLogisticRegression__beta = Some (NDArray [1, 1] [0]), acceleration = ''single''\<rparr>
      (NDArray [1, 1, 1] [1]) (NDArray [1, 1] [1])
     = Inr \<lparr>BatchedLogisticRegression__beta = Some (NDArray [1, 1] [2]), acceleration = ''single''\<rparr>"
proof -
  let ?L = one_feature_linalg
  let ?Lc = "one_feature_linalg\<lparr>BatchedCholeskySolver := \<lparr>is_QRSolver = False, run = divide_by\<rparr>\<rparr>"
  let ?Li = "one_feature_linalg\<lparr>BatchedInverseSolver :=
               \<lparr>is_QRSolver = False, run = (\<lambda>H g. Inl ZeroDivisionError)\<rparr>\<rparr>"
  let ?Lh = "one_feature_linalg\<lparr>batched_logistic_hessian := (\<lambda>X p. Inl LinAlgError)\<rparr>"
  let ?m = "\<lparr>BatchedLogisticRegression__beta = Some (NDArray [1, 1] [0]),
             acceleration = ''single''\<rparr>"
  let ?mg = "\<lparr>BatchedLogisticRegression__beta = Some (NDArray [1, 1] [0]),
              acceleration = ''gpu''\<rparr>"
  let ?X = "NDArray [1, 1, 1] [1] :: array"
  let ?y = "NDArray [1, 1] [1] :: array"
  let ?g = "NDArray [1, 1] [1 / 2] :: array"
  let ?H = "NDArray [1, 1, 1] [1 / 4] :: array"
  have add: "add_to_beta (BatchedLogisticRegression__beta ?m) (NDArray [1, 1] [2])
      = Inr (NDArray [1, 1] [2])"
    by (simp add: add_to_beta_def np_add_def np_binop_def broadcast_shapes_def
        pad_shape_def block_def)
  have chol_ok: "run (BatchedCholeskySolver ?Lc) ?H ?g = Inr (NDArray [1, 1] [2])"
    by (simp add: one_feature_linalg_def divide_by_def)
  have chol_fails: "run (BatchedCholeskySolver ?L) ?H ?g = Inl LinAlgError"
    by (simp add: one_feature_linalg_def)
  have chol_fails': "run (BatchedCholeskySolver ?Li) ?H ?g = Inl LinAlgError"
    by (simp add: one_feature_linalg_def)
  have inv_ok: "run (BatchedInverseSolver ?L) ?H ?g = Inr (NDArray [1, 1] [2])"
    by (simp add: one_feature_linalg_def divide_by_def)
  have inv_fails: "run (BatchedInverseSolver ?Li) ?H ?g = Inl ZeroDivisionError"
    by (simp add: one_feature_linalg_def)
  have grad_fails: "BatchedLogisticRegression_gradient ?L (utils 1) 1 ?mg ?X ?y =
      Inl (ValueError ''gpu acceleration is not supported.'' [])"
    by (simp add: BatchedLogisticRegression_gradient_def BatchedLogisticRegression_residual_def
        BatchedLogisticRegression_predict_def)
  have pred: "BatchedLogisticRegression_predict ?Lh (utils 1) 1 ?m ?X = Inr (NDArray [1, 1, 1] [1 / 2])"
    by (simp add: BatchedLogisticRegression_predict_def one_feature_linalg_def sigmoid_def
        expand_dims_def)
  have grad_h: "BatchedLogisticRegression_gradient ?Lh (utils 1) 1 ?m ?X ?y = Inr ?g"
    using pred
    by (simp add: BatchedLogisticRegression_gradient_def BatchedLogisticRegression_residual_def
        one_feature_linalg_def expand_dims_def np_subtract_def np_binop_def
        broadcast_shapes_def pad_shape_def block_def vdot_def)
  have hess_fails: "BatchedLogisticRegression_hessian ?Lh (utils 1) 1 ?m ?X = Inl LinAlgError"
    using pred by (simp add: BatchedLogisticRegression_hessian_def one_feature_linalg_def)
  have pred': "BatchedLogisticRegression_predict ?L (utils 1) 1 ?m ?X = Inr (NDArray [1, 1, 1] [1 / 2])"
    by (simp add: BatchedLogisticRegression_predict_def one_feature_linalg_def sigmoid_def
        expand_dims_def)
  have grad: "BatchedLogisticRegression_gradient ?L (utils 1) 1 ?m ?X ?y = Inr ?g"
    using pred'
    by (simp add: BatchedLogisticRegression_gradient_def BatchedLogisticRegression_residual_def
        one_feature_linalg_def expand_dims_def np_subtract_def np_binop_def
        broadcast_shapes_def pad_shape_def block_def vdot_def)
  have hess: "BatchedLogisticRegression_hessian ?L (utils 1) 1 ?m ?X = Inr ?H"
    using pred' by (simp add: BatchedLogisticRegression_hessian_def one_feature_linalg_def)
  note first = batched_update_falls_back_to_inverse_solver
    [of ?Lc ?H ?g "NDArray [1, 1] [2]" ?m "NDArray [1, 1] [2]"]
  note retry = batched_update_falls_back_to_inverse_solver
    [of ?L ?H ?g _ ?m _ LinAlgError _ "utils 1" 1 ?X ?y]
  note both = batched_update_falls_back_to_inverse_solver
    [of ?Li ?H ?g _ ?m _ LinAlgError ZeroDivisionError]
  note local_g = batched_update_falls_back_to_inverse_solver
    [of ?L _ _ _ ?mg _ "ValueError ''gpu acceleration is not supported.'' []" _ "utils 1" 1 ?X ?y]
  note local_h = batched_update_falls_back_to_inverse_solver
    [of ?Lh _ ?g _ ?m _ LinAlgError _ "utils 1" 1 ?X ?y]
  have c1: "BatchedLogisticRegression_beta ?Lc ?m ?g ?H (BatchedCholeskySolver ?Lc)
      = Inr (NDArray [1, 1] [2])"
    using first chol_ok add by blast
  have c2: "BatchedLogisticRegression_beta ?L ?m ?g ?H (BatchedCholeskySolver ?L)
      = Inr (NDArray [1, 1] [2])"
    using retry chol_fails inv_ok add by simp
  have c3: "BatchedLogisticRegression_beta ?Li ?m ?g ?H (BatchedCholeskySolver ?Li)
      = Inl ZeroDivisionError"
    using both chol_fails' inv_fails by blast
  have c4: "BatchedLogisticRegression_fit ?L (utils 1) 1 ?mg ?X ?y
      = Inl (ValueError ''gpu acceleration is not supported.'' [])"
    using local_g grad_fails by blast
  have c5: "BatchedLogisticRegression_fit ?Lh (utils 1) 1 ?m ?X ?y = Inl LinAlgError"
    using local_h grad_h hess_fails by blast
  have c6: "BatchedLogisticRegression_fit ?L (utils 1) 1 ?m ?X ?y
      = Inr \<lparr>BatchedLogisticRegression__beta = Some (NDArray [1, 1] [2]), acceleration = ''single''\<rparr>"
    using retry grad hess c2 by simp
  show ?thesis using c1 c2 c3 c4 c5 c6 by blast
qed

section \<open>Properties: ordered intersection\<close>

lemma first_occurrences_set: "set (first_occurrences seen xs) = set xs - set seen"
  by (induction xs arbitrary: seen) auto

lemma first_occurrences_distinct: "distinct (first_occurrences seen xs)"
  by (induction xs arbitrary: seen) (auto simp: first_occurrences_set)

lemma first_index_Cons:
  "first_index (x # xs) y = (if x = y then 0 else Suc (first_index xs y))"
  by (simp add: first_index_def)

lemma first_occurrences_sorted:
  "sorted_wrt (\<lambda>a b. first_index xs a < first_index xs b) (first_occurrences seen xs)"
proof (induction xs arbitrary: seen)
  case Nil
  then show ?case by simp
next
  case (Cons x xs)
  show ?case
  proof (cases "x \<in> set seen")
    case True
    have "sorted_wrt (\<lambda>a b. first_index (x # xs) a < first_index (x # xs) b)
            (first_occurrences seen xs)"
      using Cons.IH [of seen]
      by (rule sorted_wrt_mono_rel [rotated]) (use True in \<open>auto simp: first_index_Cons first_occurrences_set\<close>)
    with True show ?thesis by simp
  next
    case False
    have "sorted_wrt (\<lambda>a b. first_index (x # xs) a < first_index (x # xs) b)
            (first_occurrences (x # seen) xs)"
      using Cons.IH [of "x # seen"]
      by (rule sorted_wrt_mono_rel [rotated]) (auto simp: first_index_Cons first_occurrences_set)
    moreover have "\<forall>y\<in>set (first_occurrences (x # seen) xs).
            first_index (x # xs) x < first_index (x # xs) y"
      by (auto simp: first_index_Cons first_occurrences_set)
    ultimately show ?thesis using False by simp
  qed
qed

lemma as_arrays_Arrays: "as_arrays (map Array as) = Inr as"
  by (induction as) auto

text \<open>
  C1. Modelled from the spec (\<open>aggregations\<close> is not among the sources). For arrays \<open>A\<close>,
  \<open>B\<close> and any further arrays \<open>Cs\<close>, \<open>Intersect(A, B, *Cs)\<close> returns a one-dimensional array
  \<open>r\<close> without duplicates, whose elements are exactly the elements of \<open>A\<close> that occur in
  \<open>B\<close> and in every array of \<open>Cs\<close>, listed in the order of their first occurrence in \<open>A\<close>.
  On the arrays of the repository's test it returns \<open>[2, 5, 1, 7, 0, 10]\<close>.
\<close>

theorem Intersect_keeps_order_of_first_argument:
  "(\<exists>r. Intersect (Array A) (Array B) (map Array Cs) = Inr (NDArray [length r] r)
        \<and> distinct r
        \<and> set r = {x \<in> set (data A). x \<in> set (data B) \<and> (\<forall>C\<in>set Cs. x \<in> set (data C))}
        \<and> (\<forall>i j. i < j \<and> j < length r \<longrightarrow>
              first_index (data A) (r ! i) < first_index (data A) (r ! j)))
   \<and> Intersect (Array (NDArray [7] [2, 2, 5, 1, 7, 0, 10 :: int]))
        (Array (NDArray [9] [1, 2, 3, 4, 4, 5, 7, 10, 0]))
        [Array (NDArray [9] [0, 1, 2, 3, 4, 5, 6, 7, 10])]
      = Inr (NDArray [6] [2, 5, 1, 7, 0, 10])"
proof -
  let ?r = "filter (\<lambda>x. occurs_in_all x (B # Cs)) (first_occurrences [] (data A))"
  have call: "Intersect (Array A) (Array B) (map Array Cs) = Inr (NDArray [length ?r] ?r)"
    by (simp add: Intersect_def as_arrays_Arrays Let_def)
  have dist: "distinct ?r"
    by (simp add: first_occurrences_distinct)
  have elems: "set ?r = {x \<in> set (data A). x \<in> set (data B) \<and> (\<forall>C\<in>set Cs. x \<in> set (data C))}"
    by (auto simp: first_occurrences_set occurs_in_all_def list_all_iff)
  have "sorted_wrt (\<lambda>a b. first_index (data A) a < first_index (data A) b) ?r"
    by (rule sorted_wrt_filter) (rule first_occurrences_sorted)
  then have order: "\<forall>i j. i < j \<and> j < length ?r \<longrightarrow>
      first_index (data A) (?r ! i) < first_index (data A) (?r ! j)"
    by (simp add: sorted_wrt_iff_nth_less)
  have example: "Intersect (Array (NDArray [7] [2, 2, 5, 1, 7, 0, 10 :: int]))
        (Array (NDArray [9] [1, 2, 3, 4, 4, 5, 7, 10, 0]))
        [Array (NDArray [9] [0, 1, 2, 3, 4, 5, 6, 7, 10])]
      = Inr (NDArray [6] [2, 5, 1, 7, 0, 10])"
    by (simp add: Intersect_def occurs_in_all_def)
  from call dist elems order example show ?thesis by blast
qed

theorem Intersect_keeps_order_of_first_argument_witness:
  "Intersect (Array (NDArray [7] [2, 2, 5, 1, 7, 0, 10 :: int]))
        (Array (NDArray [9] [1, 2, 3, 4, 4, 5, 7, 10, 0]))
        [Array (NDArray [9] [0, 1, 2, 3, 4, 5, 6, 7, 10])]
      = Inr (NDArray [6] [2, 5, 1, 7, 0, 10])
   \<and> distinct [2, 5, 1, 7, 0, 10 :: int]
   \<and> first_index [2, 2, 5, 1, 7, 0, 10 :: int] 2 < first_index [2, 2, 5, 1, 7, 0, 10 :: int] 5"
proof -
  let ?A = "NDArray [7] [2, 2, 5, 1, 7, 0, 10 :: int]"
  let ?B = "NDArray [9] [1, 2, 3, 4, 4, 5, 7, 10, 0 :: int]"
  let ?C = "NDArray [9] [0, 1, 2, 3, 4, 5, 6, 7, 10 :: int]"
  from Intersect_keeps_order_of_first_argument [of ?A ?B "[?C]"]
  obtain r where r: "Intersect (Array ?A) (Array ?B) [Array ?C] = Inr (NDArray [length r] r)"
      "distinct r"
      "\<forall>i j. i < j \<and> j < length r \<longrightarrow>
          first_index (data ?A) (r ! i) < first_index (data ?A) (r ! j)"
    and ex: "Intersect (Array ?A) (Array ?B) [Array ?C] = Inr (NDArray [6] [2, 5, 1, 7, 0, 10])"
    by auto
  from r(1) ex have eq: "r = [2, 5, 1, 7, 0, 10]" by simp
  have "first_index (data ?A) (r ! 0) < first_index (data ?A) (r ! 1)"
    using r(3) [rule_format, of 0 1] eq by simp
  with eq r(2) ex show ?thesis by simp
qed

section \<open>Properties: element-wise sum\<close>

lemma numbers_map_contribution: "numbers (map_contribution f c) = map f (numbers c)"
proof (induction c)
  case (Number a)
  then show ?case by simp
next
  case (Array a)
  then show ?case by (cases a) simp
next
  case (Sequence cs)
  then show ?case by (simp add: map_concat comp_def cong: map_cong)
qed

lemma container_shape_Number: "container_shape (Number a) = Number ()"
  by (simp add: container_shape_def)

lemma container_shape_Array:
  "container_shape (Array a) = Array (NDArray (shape a) (replicate (length (data a)) ()))"
  by (cases a) (simp add: container_shape_def map_replicate_const)

lemma container_shape_Sequence:
  "container_shape (Sequence cs) = Sequence (map container_shape cs)"
  by (simp add: container_shape_def [abs_def])

lemmas container_shape_simps =
  container_shape_Number container_shape_Array container_shape_Sequence

lemma same_shape_same_count:
  assumes "container_shape a = container_shape b"
  shows "length (numbers a) = length (numbers b)"
proof -
  have "length (numbers a) = length (numbers (container_shape a))"
    by (simp add: container_shape_def numbers_map_contribution)
  also have "\<dots> = length (numbers (container_shape b))"
    using assms by simp
  also have "\<dots> = length (numbers b)"
    by (simp add: container_shape_def numbers_map_contribution)
  finally show ?thesis .
qed

lemma zip_append_same_length:
  "length xs = length ys \<Longrightarrow>
     map f (zip (xs @ us) (ys @ vs)) = map f (zip xs ys) @ map f (zip us vs)"
  by simp

lemma add_same_shape:
  "container_shape a = container_shape b \<Longrightarrow>
     \<exists>r. add_contribution a b = Inr r \<and> container_shape r = container_shape a
        \<and> numbers r = map (\<lambda>(x, y). x + y) (zip (numbers a) (numbers b))"
  and add_sequences_same_shape:
  "map container_shape xs = map container_shape ys \<Longrightarrow>
     \<exists>zs. add_sequences xs ys = Inr zs \<and> map container_shape zs = map container_shape xs
        \<and> concat (map numbers zs)
            = map (\<lambda>(x, y). x + y) (zip (concat (map numbers xs)) (concat (map numbers ys)))"
proof (induction a b and xs ys rule: add_contribution_add_sequences.induct)
  case (1 a b)
  then show ?case by (simp add: container_shape_simps)
next
  case (2 a b)
  then show ?case by (simp add: container_shape_simps)
next
  case (3 xs ys)
  from 3 have "map container_shape xs = map container_shape ys"
    by (simp add: container_shape_simps)
  from 3(1) [OF this] show ?case
    by (auto simp: container_shape_simps)
next
  case (6 x xs y ys)
  from 6(3) have hd_eq: "container_shape x = container_shape y"
    and tl_eq: "map container_shape xs = map container_shape ys"
    by simp_all
  from 6(1) [OF hd_eq] obtain z where z: "add_contribution x y = Inr z"
    "container_shape z = container_shape x"
    "numbers z = map (\<lambda>(x, y). x + y) (zip (numbers x) (numbers y))"
    by blast
  from 6(2) [OF z(1) tl_eq] obtain zs where zs: "add_sequences xs ys = Inr zs"
    "map container_shape zs = map container_shape xs"
    "concat (map numbers zs)
       = map (\<lambda>(x, y). x + y) (zip (concat (map numbers xs)) (concat (map numbers ys)))"
    by blast
  have "length (numbers x) = length (numbers y)"
    using hd_eq by (rule same_shape_same_count)
  then show ?case
    using z zs by simp
qed (simp_all add: container_shape_simps)

lemma sum_from_same_shape:
  assumes "\<forall>c\<in>set cs. container_shape c = container_shape acc"
  shows "\<exists>r. sum_from acc cs = Inr r \<and> container_shape r = container_shape acc
           \<and> numbers r = map (\<lambda>i. numbers acc ! i + sum_list (map (\<lambda>c. numbers c ! i) cs))
                            [0..<length (numbers acc)]"
  using assms
proof (induction cs arbitrary: acc)
  case Nil
  then show ?case by (simp add: map_nth)
next
  case (Cons c cs)
  from Cons.prems have shape_c: "container_shape acc = container_shape c"
    by simp
  from add_same_shape [OF shape_c] obtain s where s: "add_contribution acc c = Inr s"
    "container_shape s = container_shape acc"
    "numbers s = map (\<lambda>(x, y). x + y) (zip (numbers acc) (numbers c))"
    by blast
  have count_c: "length (numbers c) = length (numbers acc)"
    using same_shape_same_count [OF shape_c] by simp
  have count_s: "length (numbers s) = length (numbers acc)"
    using same_shape_same_count [OF s(2)] .
  from Cons.prems s(2) have "\<forall>d\<in>set cs. container_shape d = container_shape s"
    by simp
  from Cons.IH [OF this] obtain r where r: "sum_from s cs = Inr r"
    "container_shape r = container_shape s"
    "numbers r = map (\<lambda>i. numbers s ! i + sum_list (map (\<lambda>c. numbers c ! i) cs))
                   [0..<length (numbers s)]"
    by blast
  have entry: "numbers s ! i = numbers acc ! i + numbers c ! i" if "i < length (numbers acc)" for i
    using that count_c by (simp add: s(3))
  have "numbers r = map (\<lambda>i. numbers acc ! i + sum_list (map (\<lambda>c. numbers c ! i) (c # cs)))
                      [0..<length (numbers acc)]"
    unfolding r(3) count_s by (rule map_cong) (simp_all add: entry)
  with s r show ?case by simp
qed

lemma add_sequences_entries:
  assumes "map container_shape ys = map container_shape xs"
  shows "\<exists>zs. add_sequences xs ys = Inr zs \<and> map container_shape zs = map container_shape xs
           \<and> (\<forall>i<length xs. add_contribution (xs ! i) (ys ! i) = Inr (zs ! i))"
  using assms
proof (induction xs arbitrary: ys)
  case Nil
  then show ?case by simp
next
  case (Cons x xs)
  then obtain y ys' where ys: "ys = y # ys'" by (cases ys) auto
  with Cons.prems have hd_eq: "container_shape x = container_shape y"
    and tl_eq: "map container_shape ys' = map container_shape xs"
    by simp_all
  from add_same_shape [OF hd_eq] obtain z where z: "add_contribution x y = Inr z"
    "container_shape z = container_shape x"
    by blast
  from Cons.IH [OF tl_eq] obtain zs where zs: "add_sequences xs ys' = Inr zs"
    "map container_shape zs = map container_shape xs"
    "\<forall>i<length xs. add_contribution (xs ! i) (ys' ! i) = Inr (zs ! i)"
    by blast
  show ?case
    using ys z zs by (auto simp: nth_Cons')
qed

lemma sum_from_sequences:
  assumes "\<forall>cs\<in>set css. map container_shape cs = map container_shape as"
  shows "\<exists>rs. sum_from (Sequence as) (map Sequence css) = Inr (Sequence rs)
           \<and> map container_shape rs = map container_shape as
           \<and> (\<forall>i<length as. sum_from (as ! i) (map (\<lambda>cs. cs ! i) css) = Inr (rs ! i))"
  using assms
proof (induction css arbitrary: as)
  case Nil
  then show ?case by simp
next
  case (Cons cs css)
  from Cons.prems have "map container_shape cs = map container_shape as"
    by simp
  from add_sequences_entries [OF this] obtain zs where zs: "add_sequences as cs = Inr zs"
    "map container_shape zs = map container_shape as"
    "\<forall>i<length as. add_contribution (as ! i) (cs ! i) = Inr (zs ! i)"
    by blast
  from Cons.prems zs(2) have "\<forall>ds\<in>set css. map container_shape ds = map container_shape zs"
    by simp
  from Cons.IH [OF this] obtain rs where rs: "sum_from (Sequence zs) (map Sequence css) = Inr (Sequence rs)"
    "map container_shape rs = map container_shape zs"
    "\<forall>i<length zs. sum_from (zs ! i) (map (\<lambda>cs. cs ! i) css) = Inr (rs ! i)"
    by blast
  have "length zs = length as"
    using zs(2) by (rule map_eq_imp_length_eq)
  with zs rs show ?case by simp
qed

text \<open>
  C9. Modelled from the spec (\<open>aggregations\<close> is not among the sources). For two or more
  contributions \<open>a\<close>, \<open>b\<close>, \<open>rest\<close> of one container shape (plain numbers, arrays of one
  shape, or sequences of equal length whose corresponding entries have one shape),
  \<open>SumUp(a, b, *rest)\<close> returns a contribution of the same container shape whose number
  at each position is the sum of the numbers of all the contributions at that position.
  On plain numbers it is their sum; on sequences it is the sequence whose entry at each
  position is \<open>SumUp\<close> of the entries of all the sequences at that position.
\<close>

theorem SumUp_is_elementwise_sum:
  "((\<forall>c\<in>set (b # rest). container_shape c = container_shape a) \<longrightarrow>
      (\<exists>r. SumUp a b rest = Inr r
          \<and> container_shape r = container_shape a
          \<and> numbers r = map (\<lambda>i. sum_list (map (\<lambda>c. numbers c ! i) (a # b # rest)))
                           [0..<length (numbers a)]))
   \<and> SumUp (Number u) (Number v) (map Number ws) = Inr (Number (u + v + sum_list ws))
   \<and> ((\<forall>cs\<in>set (bs # css). map container_shape cs = map container_shape as) \<longrightarrow>
      (\<exists>rs. SumUp (Sequence as) (Sequence bs) (map Sequence css) = Inr (Sequence rs)
          \<and> length rs = length as
          \<and> (\<forall>i<length as. SumUp (as ! i) (bs ! i) (map (\<lambda>cs. cs ! i) css) = Inr (rs ! i))))"
proof -
  have all: "\<exists>r. SumUp a b rest = Inr r
          \<and> container_shape r = container_shape a
          \<and> numbers r = map (\<lambda>i. sum_list (map (\<lambda>c. numbers c ! i) (a # b # rest)))
                           [0..<length (numbers a)]"
    if "\<forall>c\<in>set (b # rest). container_shape c = container_shape a"
    using sum_from_same_shape [OF that] by (simp add: SumUp_def)
  have "sum_from (Number x) (map Number xs) = Inr (Number (x + sum_list xs))" for x :: real and xs
    by (induction xs arbitrary: x) (simp_all add: add.assoc)
  then have nums: "SumUp (Number u) (Number v) (map Number ws) = Inr (Number (u + v + sum_list ws))"
    by (simp add: SumUp_def)
  have seqs: "\<exists>rs. SumUp (Sequence as) (Sequence bs) (map Sequence css) = Inr (Sequence rs)
          \<and> length rs = length as
          \<and> (\<forall>i<length as. SumUp (as ! i) (bs ! i) (map (\<lambda>cs. cs ! i) css) = Inr (rs ! i))"
    if "\<forall>cs\<in>set (bs # css). map container_shape cs = map container_shape as"
  proof -
    from sum_from_sequences [OF that] obtain rs where
      rs: "sum_from (Sequence as) (map Sequence (bs # css)) = Inr (Sequence rs)"
      "map container_shape rs = map container_shape as"
      "\<forall>i<length as. sum_from (as ! i) (map (\<lambda>cs. cs ! i) (bs # css)) = Inr (rs ! i)"
      by blast
    have "length rs = length as"
      using rs(2) by (rule map_eq_imp_length_eq)
    with rs(1, 3) show ?thesis
      by (simp add: SumUp_def)
  qed
  show ?thesis using all nums seqs by blast
qed

theorem SumUp_is_elementwise_sum_witness:
  "SumUp (Number 1) (Number 2) [] = Inr (Number 3)
   \<and> SumUp (Number 1) (Number (5 / 2)) [Number (17 / 5)] = Inr (Number (69 / 10))
   \<and> SumUp (Array (NDArray [2] [1, 2])) (Array (NDArray [2] [10, 20]))
        [Array (NDArray [2] [100, 200]), Array (NDArray [2] [1000, 2000])]
       = Inr (Array (NDArray [2] [1111, 2222]))
   \<and> SumUp (Sequence [Array (NDArray [2] [1, 2]), Number 3])
            (Sequence [Array (NDArray [2] [10, 20]), Number 30])
            [Sequence [Array (NDArray [2] [100, 200]), Number 300],
             Sequence [Array (NDArray [2] [1000, 2000]), Number 3000]]
       = Inr (Sequence [Array (NDArray [2] [1111, 2222]), Number 3333])"
proof -
  let ?a = "Array (NDArray [2] [1, 2]) :: real contribution"
  let ?b = "Array (NDArray [2] [10, 20]) :: real contribution"
  let ?rest = "[Array (NDArray [2] [100, 200]), Array (NDArray [2] [1000, 2000])] :: real contribution list"
  let ?as = "[Array (NDArray [2] [1, 2]), Number 3] :: real contribution list"
  let ?bs = "[Array (NDArray [2] [10, 20]), Number 30] :: real contribution list"
  let ?css = "[[Array (NDArray [2] [100, 200]), Number 300],
               [Array (NDArray [2] [1000, 2000]), Number 3000]] :: real contribution list list"
  note at_four = SumUp_is_elementwise_sum [of ?b ?rest ?a 1 "5 / 2" "[17 / 5]" ?bs ?css ?as]
  have two: "SumUp (Number 1) (Number 2) [] = Inr (Number (3 :: real))"
    using SumUp_is_elementwise_sum [of ?b ?rest ?a 1 2 "[]" ?bs ?css ?as] by simp
  have three: "SumUp (Number 1) (Number (5 / 2)) [Number (17 / 5)] = Inr (Number (69 / 10))"
    using at_four by simp
  have "\<forall>c\<in>set (?b # ?rest). container_shape c = container_shape ?a"
    by (simp add: container_shape_simps)
  with at_four obtain r where r: "SumUp ?a ?b ?rest = Inr r"
    "container_shape r = container_shape ?a"
    "numbers r = map (\<lambda>i. sum_list (map (\<lambda>c. numbers c ! i) (?a # ?b # ?rest)))
                   [0..<length (numbers ?a)]"
    by blast
  from r(3) have "numbers r = [1111, 2222]"
    by (simp add: upt_rec)
  with r(2) have "r = Array (NDArray [2] [1111, 2222])"
    by (cases r) (auto simp: container_shape_simps ndarray.expand)
  with r(1) have four: "SumUp ?a ?b ?rest = Inr (Array (NDArray [2] [1111, 2222]))"
    by simp
  have "\<forall>cs\<in>set (?bs # ?css). map container_shape cs = map container_shape ?as"
    by (simp add: container_shape_simps)
  with at_four obtain rs where rs: "SumUp (Sequence ?as) (Sequence ?bs) (map Sequence ?css) = Inr (Sequence rs)"
    "length rs = length ?as"
    "\<forall>i<length ?as. SumUp (?as ! i) (?bs ! i) (map (\<lambda>cs. cs ! i) ?css) = Inr (rs ! i)"
    by blast
  have "rs ! 0 = Array (NDArray [2] [1111, 2222])" and "rs ! 1 = Number 3333"
    using rs(3) [rule_format, of 0] rs(3) [rule_format, of 1] by (simp_all add: SumUp_def)
  with rs(2) have "rs = [Array (NDArray [2] [1111, 2222]), Number 3333]"
    by (cases rs; cases "tl rs") auto
  with rs(1) two three four show ?thesis by simp
qed

section \<open>Properties: prediction with \<open>acceleration="pmap"\<close>\<close>

lemma block_of_block: "i < m \<Longrightarrow> block k i (block (m * k) j xs) = block k (j * m + i) xs"
proof -
  assume im: "i < m"
  have "Suc i * k \<le> m * k" using im by (simp add: Suc_leI mult_le_mono1 del: mult_Suc)
  then have le: "k \<le> m * k - i * k" by simp
  have idx: "i * k + j * (m * k) = (j * m + i) * k" by (simp add: algebra_simps)
  have "block k i (block (m * k) j xs)
      = take k (take (m * k - i * k) (drop (i * k) (drop (j * (m * k)) xs)))"
    by (simp only: block_def drop_take)
  also have "\<dots> = take k (drop (i * k + j * (m * k)) xs)"
    using le by (simp only: take_take min.absorb1 drop_drop)
  also have "\<dots> = block k (j * m + i) xs"
    by (simp only: idx block_def)
  finally show ?thesis .
qed

lemma block_of_drop: "block k i (drop (n * k) xs) = block k (n + i) xs"
proof -
  have "i * k + n * k = (n + i) * k" by (simp add: algebra_simps)
  then show ?thesis by (simp only: block_def drop_drop)
qed

lemma concat_regroup:
  "concat (map (\<lambda>j. concat (map (\<lambda>i. g (j * m + i)) [0..<m])) [0..<n]) = concat (map g [0..<n * m])"
proof (induction n)
  case 0
  then show ?case by simp
next
  case (Suc n)
  have "[0..<n * m + m] = [0..<n * m] @ [n * m..<n * m + m]"
    by (rule upt_add_eq_append) simp
  moreover have "[n * m..<n * m + m] = map (\<lambda>i. n * m + i) [0..<m]"
    by (simp add: map_add_upt add.commute)
  ultimately have "map g [0..<Suc n * m] = map g [0..<n * m] @ map (\<lambda>i. g (n * m + i)) [0..<m]"
    by (simp add: comp_def add.commute)
  then show ?case using Suc by simp
qed

lemma collect_all_Inr: "collect (map (\<lambda>x. Inr (h x)) xs) = Inr (map h xs)"
  by (induction xs) auto

lemma stack_same_shape:
  "rs \<noteq> [] \<Longrightarrow> \<forall>q\<in>set rs. shape q = s \<Longrightarrow>
     stack rs = Inr (NDArray (length rs # s) (concat (map data rs)))"
  by (cases rs) (auto simp: stack_def list_all_iff)

lemma pmap_branch_agrees_with_kernel:
  assumes cores: "utils_mod ''jax_cpu_cores'' = Some ncores" "0 < ncores" "ncores \<le> device_count"
    and X: "shape X = [batch, nsample, ndims]"
    and c: "shape c = [batch, ndims]"
    and ns: "0 < nsample"
    and krn: "\<And>X' c'. batched_kernel X' (Some c') = Inr (slicewise f X' c')"
  shows "pmap_branch batched_kernel utils_mod device_count (Some c) X = batched_kernel X (Some c)"
proof -
  define S where "S = nsample * ndims"
  define m where "m = batch div ncores"
  define k where "k = m * ncores"
  define g where "g = (\<lambda>i. f (block S i (data X)) (block ndims i (data c)))"
  have k_le: "k \<le> batch" by (simp add: k_def m_def)
  have k_eq: "k = ncores * m" by (simp add: k_def)
  have whole: "batched_kernel X (Some c) = Inr (NDArray [batch, nsample] (concat (map g [0..<batch])))"
    by (simp add: krn slicewise_def X g_def S_def)
  have takeX: "take_leading (m * ncores) X = NDArray [k, nsample, ndims] (take (k * S) (data X))"
    using k_le by (simp add: take_leading_def X k_def [symmetric] S_def min.absorb1)
  have takec: "take_leading (m * ncores) c = NDArray [k, ndims] (take (k * ndims) (data c))"
    using k_le by (simp add: take_leading_def c k_def [symmetric] min.absorb1)
  define A where "A = NDArray [ncores, m, nsample, ndims] (take (k * S) (data X))"
  define a where "a = NDArray [ncores, m, ndims] (take (k * ndims) (data c))"
  have reshapeX: "np_reshape (take_leading (m * ncores) X) [ncores, m, nsample, ndims] = Inr A"
    by (simp add: takeX np_reshape_def A_def k_eq)
  have reshapec: "np_reshape (take_leading (m * ncores) c) [ncores, m, ndims] = Inr a"
    by (simp add: takec np_reshape_def a_def k_eq)
  have slicesA: "leading_slices A
      = map (\<lambda>j. NDArray [m, nsample, ndims] (block (m * S) j (take (k * S) (data X)))) [0..<ncores]"
    by (simp add: leading_slices_def A_def S_def)
  have slicesa: "leading_slices a
      = map (\<lambda>j. NDArray [m, ndims] (block (m * ndims) j (take (k * ndims) (data c)))) [0..<ncores]"
    by (simp add: leading_slices_def a_def)
  have group: "slicewise f (NDArray [m, nsample, ndims] (block (m * S) j (take (k * S) (data X))))
                 (NDArray [m, ndims] (block (m * ndims) j (take (k * ndims) (data c))))
      = NDArray [m, nsample] (concat (map (\<lambda>i. g (j * m + i)) [0..<m]))"
    if j: "j < ncores" for j
  proof -
    have inside: "j * m + i < k" if "i < m" for i
    proof -
      have "j * m + i < Suc j * m" using that by simp
      also have "\<dots> \<le> ncores * m" using j by (intro mult_le_mono1) simp
      finally show ?thesis by (simp add: k_eq)
    qed
    have same: "map (\<lambda>i. f (block S i (block (m * S) j (take (k * S) (data X))))
                     (block ndims i (block (m * ndims) j (take (k * ndims) (data c))))) [0..<m]
        = map (\<lambda>i. g (j * m + i)) [0..<m]"
      by (rule map_cong) (simp_all add: block_of_block block_of_take inside g_def)
    have "slicewise f (NDArray [m, nsample, ndims] (block (m * S) j (take (k * S) (data X))))
                 (NDArray [m, ndims] (block (m * ndims) j (take (k * ndims) (data c))))
      = NDArray [m, nsample]
          (concat (map (\<lambda>i. f (block S i (block (m * S) j (take (k * S) (data X))))
                     (block ndims i (block (m * ndims) j (take (k * ndims) (data c))))) [0..<m]))"
      by (simp add: slicewise_def S_def [symmetric])
    then show ?thesis by (simp only: same)
  qed
  have "map (\<lambda>(Sl, sl). batched_kernel Sl (Some sl)) (zip (leading_slices A) (leading_slices a))
      = map (\<lambda>j. Inr (NDArray [m, nsample] (concat (map (\<lambda>i. g (j * m + i)) [0..<m])))) [0..<ncores]"
    unfolding slicesA slicesa zip_map_map map_map
    by (rule nth_equalityI) (simp_all add: krn group)
  then have collected:
    "collect (map (\<lambda>(Sl, sl). batched_kernel Sl (Some sl)) (zip (leading_slices A) (leading_slices a)))
      = Inr (map (\<lambda>j. NDArray [m, nsample] (concat (map (\<lambda>i. g (j * m + i)) [0..<m]))) [0..<ncores])"
    by (simp only: collect_all_Inr)
  have stacked: "stack (map (\<lambda>j. NDArray [m, nsample] (concat (map (\<lambda>i. g (j * m + i)) [0..<m]))) [0..<ncores])
      = Inr (NDArray [ncores, m, nsample] (concat (map g [0..<k])))"
  proof -
    let ?rs = "map (\<lambda>j. NDArray [m, nsample] (concat (map (\<lambda>i. g (j * m + i)) [0..<m]))) [0..<ncores]"
    have "?rs \<noteq> []" using cores(2) by simp
    moreover have "\<forall>q\<in>set ?rs. shape q = [m, nsample]" by auto
    ultimately have "stack ?rs = Inr (NDArray (length ?rs # [m, nsample]) (concat (map data ?rs)))"
      by (rule stack_same_shape)
    moreover have "concat (map data ?rs)
        = concat (map (\<lambda>j. concat (map (\<lambda>i. g (j * m + i)) [0..<m])) [0..<ncores])"
      by (simp add: comp_def)
    moreover have "\<dots> = concat (map g [0..<k])"
      by (simp only: concat_regroup k_eq)
    ultimately show ?thesis by simp
  qed
  have mapped: "pmap device_count batched_kernel A a
      = Inr (NDArray [ncores, m, nsample] (concat (map g [0..<k])))"
    using cores(3) by (simp add: pmap_def collected stacked) (simp add: slicesA slicesa)
  have Y: "np_reshape_infer (NDArray [ncores, m, nsample] (concat (map g [0..<k]))) nsample
      = Inr (NDArray [k, nsample] (concat (map g [0..<k])))"
    using ns by (simp add: np_reshape_infer_def k_eq)
  have rest: "batched_kernel (drop_leading (m * ncores) X) (Some (drop_leading (m * ncores) c))
      = Inr (NDArray [batch - k, nsample] (concat (map (\<lambda>i. g (k + i)) [0..<batch - k])))"
  proof -
    have dX: "drop_leading (m * ncores) X = NDArray [batch - k, nsample, ndims] (drop (k * S) (data X))"
      using k_le by (simp add: drop_leading_def X k_def [symmetric] S_def min.absorb1)
    have dc: "drop_leading (m * ncores) c = NDArray [batch - k, ndims] (drop (k * ndims) (data c))"
      using k_le by (simp add: drop_leading_def c k_def [symmetric] min.absorb1)
    show ?thesis
      by (simp add: dX dc krn slicewise_def S_def [symmetric] block_of_drop g_def)
  qed
  have joined: "np_concatenate (NDArray [k, nsample] (concat (map g [0..<k])))
        (NDArray [batch - k, nsample] (concat (map (\<lambda>i. g (k + i)) [0..<batch - k])))
      = Inr (NDArray [batch, nsample] (concat (map g [0..<batch])))"
  proof -
    have "[0..<k + (batch - k)] = [0..<k] @ [k..<k + (batch - k)]"
      by (rule upt_add_eq_append) simp
    moreover have "[k..<k + (batch - k)] = map (\<lambda>i. k + i) [0..<batch - k]"
      by (simp add: map_add_upt add.commute)
    moreover have "k + (batch - k) = batch"
      using k_le by simp
    ultimately have "[0..<batch] = [0..<k] @ map (\<lambda>i. k + i) [0..<batch - k]"
      by simp
    then have "concat (map g [0..<batch])
        = concat (map g [0..<k]) @ concat (map (\<lambda>i. g (k + i)) [0..<batch - k])"
      by (simp add: comp_def)
    then show ?thesis using k_le by (simp add: np_concatenate_def)
  qed
  have no_rest: "k = batch" if "batch mod ncores = 0"
    using that div_mult_mod_eq [of batch ncores] by (simp add: k_def m_def)
  have "pmap_branch batched_kernel utils_mod device_count (Some c) X
      = Inr (NDArray [batch, nsample] (concat (map g [0..<batch])))"
  proof (cases "batch mod ncores = 0")
    case True
    then have "pmap_branch batched_kernel utils_mod device_count (Some c) X
        = Inr (NDArray [k, nsample] (concat (map g [0..<k])))"
      using cores(1,2)
      by (simp add: pmap_branch_def call_attr_def X c m_def [symmetric] reshapeX reshapec mapped Y)
    then show ?thesis
      by (simp only: no_rest [OF True])
  next
    case False
    then show ?thesis
      using cores(1,2)
      by (simp add: pmap_branch_def call_attr_def X c m_def [symmetric] reshapeX reshapec mapped Y
          rest joined)
  qed
  with whole show ?thesis by simp
qed

text \<open>
  The partition of the \<open>pmap\<close> branch is sound where it can run. For a module that does
  provide the worker count, at least as many devices as workers, at least one sample per
  slice, and a kernel that works slice by slice, the branch returns what the kernel
  returns on the whole batch, whether or not the batch size is a multiple of the worker
  count; so \<open>predict\<close> agrees in both modes.
\<close>

lemma pmap_predict_agrees_when_worker_count_is_defined:
  assumes "utils_mod ''jax_cpu_cores'' = Some ncores" "0 < ncores" "ncores \<le> device_count"
    and "shape X = [batch, nsample, ndims]"
    and "BatchedLinearRegression_coef self = Some c"
    and "shape c = [batch, ndims]"
    and "0 < nsample"
    and "\<And>X' c'. batched_mvmul L X' (Some c') = Inr (slicewise f X' c')"
  shows "BatchedLinearRegression_predict L utils_mod device_count self X ''pmap''
       = BatchedLinearRegression_predict L utils_mod device_count self X ''single''"
proof -
  have "pmap_branch (batched_mvmul L) utils_mod device_count (Some c) X
      = batched_mvmul L X (Some c)"
    by (rule pmap_branch_agrees_with_kernel
          [where f = f and ncores = ncores and batch = batch and nsample = nsample
             and ndims = ndims])
       (simp_all add: assms)
  then show ?thesis
    using assms(5) by (simp add: BatchedLinearRegression_predict_def)
qed

text \<open>
  C2. The claim is that \<open>predict\<close> with \<open>acceleration="pmap"\<close> returns what it returns with
  \<open>acceleration="single"\<close>. The code does not get that far: the \<open>pmap\<close> branch asks for the
  worker count as \<open>utils.jax_cpu_cores()\<close>, and \<open>utils.py\<close> defines \<open>jax_dev_count\<close> and no
  \<open>jax_cpu_cores\<close>. So for every model, every input and every number of devices the call
  raises \<open>AttributeError\<close>, also where the \<open>single\<close> mode returns a prediction.
\<close>

theorem pmap_predict_raises_AttributeError:
  "BatchedLinearRegression_predict L (utils device_count) device_count self X ''pmap''
     = Inl (AttributeError ''jax_cpu_cores'')"
  by (simp add: BatchedLinearRegression_predict_def pmap_branch_def call_attr_def utils_def)

theorem pmap_predict_raises_AttributeError_witness:
  "BatchedLinearRegression_predict one_feature_linalg (utils 2) 2
      \<lparr>BatchedLinearRegression__beta = Some (NDArray [1, 1] [3]),
        BatchedLinearRegression__include_bias = False\<rparr>
      (NDArray [1, 2, 1] [1, 2]) ''single''
     = Inr (NDArray [1, 2] [3, 6])
   \<and> BatchedLinearRegression_predict one_feature_linalg (utils 2) 2
      \<lparr>BatchedLinearRegression__beta = Some (NDArray [1, 1] [3]),
        BatchedLinearRegression__include_bias = False\<rparr>
      (NDArray [1, 2, 1] [1, 2]) ''pmap''
     = Inl (AttributeError ''jax_cpu_cores'')"
proof -
  have single: "BatchedLinearRegression_predict one_feature_linalg (utils 2) 2
      \<lparr>BatchedLinearRegression__beta = Some (NDArray [1, 1] [3]),
        BatchedLinearRegression__include_bias = False\<rparr>
      (NDArray [1, 2, 1] [1, 2]) ''single''
     = Inr (NDArray [1, 2] [3, 6])"
    by (simp add: BatchedLinearRegression_predict_def BatchedLinearRegression_coef_def
        one_feature_linalg_def)
  show ?thesis
    using single pmap_predict_raises_AttributeError
      [of one_feature_linalg 2
          "\<lparr>BatchedLinearRegression__beta = Some (NDArray [1, 1] [3]),
            BatchedLinearRegression__include_bias = False\<rparr>"
          "NDArray [1, 2, 1] [1, 2]"]
    by simp
qed

end
